theory Spec2Isabelle
  imports Main "HOL-Library.Sublist"
begin

section \<open>A shallow embedding of the yaverapp authentication backend\<close>

text \<open>
  The repository is an Express application: two routers (\<^verbatim>\<open>routes/auth.routes.ts\<close>,
  \<^verbatim>\<open>routes/user.routes.ts\<close>), the \<^verbatim>\<open>auth\<close> middleware, \<^verbatim>\<open>AuthService\<close>, two
  \<^verbatim>\<open>UserRepository\<close> classes over the same TypeORM table, and the environment check
  \<^verbatim>\<open>validateEnv\<close>. Each source function becomes a HOL function of the same name.
  What the source reads from the outside world is an explicit argument:
  \<^item> \<open>L\<close>, the libraries the code calls (bcrypt, jsonwebtoken, validator, envalid) and
    the uuid syntax of the database;
  \<^item> \<open>env\<close>, the process environment \<^verbatim>\<open>process.env\<close>;
  \<^item> \<open>d\<close>, the database behind \<^verbatim>\<open>AppDataSource\<close>, returned updated by writes;
  \<^item> \<open>now\<close>, the clock in seconds; \<open>salt\<close>, the salt bcrypt draws; \<open>uuid\<close>, the
    primary key the database generates for an inserted row.
  A JavaScript string is a \<^typ>\<open>string\<close>; a property that may be \<^verbatim>\<open>undefined\<close> is an
  \<^typ>\<open>string option\<close>; a thrown \<^verbatim>\<open>Error\<close> is the left summand of a sum.
\<close>

subsection \<open>The libraries\<close>

text \<open>
  The payload of a token after \<^verbatim>\<open>jwt.sign({ id: userId }, secret, { expiresIn: '24h' })\<close>:
  the \<^verbatim>\<open>id\<close> claim and the two timestamps jsonwebtoken adds.
\<close>

record jwt_payload =
  payload_id :: string
  iat :: nat
  exp :: nat

record libs =
  bcrypt_hash :: "string \<Rightarrow> string \<Rightarrow> string"
    \<comment> \<open>\<^verbatim>\<open>bcrypt.hash(data, 10)\<close>: the drawn salt, the plaintext\<close>
  bcrypt_compare :: "string \<Rightarrow> string \<Rightarrow> bool"
    \<comment> \<open>\<^verbatim>\<open>bcrypt.compare(data, hash)\<close>\<close>
  jwt_sign :: "string \<Rightarrow> jwt_payload \<Rightarrow> string"
    \<comment> \<open>the secret, the payload with its timestamps\<close>
  jwt_verify :: "string \<Rightarrow> nat \<Rightarrow> string \<Rightarrow> jwt_payload option"
    \<comment> \<open>\<^verbatim>\<open>jwt.verify(token, secret)\<close> at a clock time; \<open>None\<close> when it throws\<close>
  jwt_signature_matches :: "string \<Rightarrow> string \<Rightarrow> bool"
    \<comment> \<open>the token is well formed and its signature is the one the secret gives\<close>
  isEmail :: "string \<Rightarrow> bool"
    \<comment> \<open>validator.js \<^verbatim>\<open>isEmail\<close>\<close>
  envalid_port :: "string \<Rightarrow> bool"
    \<comment> \<open>envalid's \<^verbatim>\<open>port()\<close> accepts the string\<close>
  pg_uuid :: "string \<Rightarrow> string option"
    \<comment> \<open>PostgreSQL reading a string as a \<^verbatim>\<open>uuid\<close>: its canonical text, \<open>None\<close> on a syntax error\<close>

text \<open>What the code relies on from bcrypt: a hash verifies against its own plaintext.\<close>

definition bcrypt_ok :: "libs \<Rightarrow> bool" where
  "bcrypt_ok L \<longleftrightarrow> (\<forall>salt p. bcrypt_compare L p (bcrypt_hash L salt p))"

text \<open>
  A second assumption on bcrypt, for a plaintext that sits in the password column:
  no string is accepted as a hash of itself. (\<^verbatim>\<open>bcrypt.compare\<close> answers false for
  every string that is not in the format of a bcrypt hash.)
\<close>

definition bcrypt_no_self_hash :: "libs \<Rightarrow> bool" where
  "bcrypt_no_self_hash L \<longleftrightarrow> (\<forall>p. \<not> bcrypt_compare L p p)"

text \<open>
  What the code relies on from jsonwebtoken: a signed token is a non-empty string, it
  verifies under the same secret until its expiry and yields its payload, and a token
  whose signature does not match the secret never verifies.
\<close>

definition jwt_ok :: "libs \<Rightarrow> bool" where
  "jwt_ok L \<longleftrightarrow>
     (\<forall>secret c now. now < exp c \<longrightarrow> jwt_verify L secret now (jwt_sign L secret c) = Some c) \<and>
     (\<forall>secret c. jwt_sign L secret c \<noteq> []) \<and>
     (\<forall>secret now t. \<not> jwt_signature_matches L secret t \<longrightarrow> jwt_verify L secret now t = None)"

subsection \<open>JavaScript helpers\<close>

text \<open>\<^verbatim>\<open>x || d\<close> on a string that may be undefined: the empty string is falsy too.\<close>

definition js_or :: "string option \<Rightarrow> string \<Rightarrow> string" where
  "js_or x d = (case x of None \<Rightarrow> d | Some s \<Rightarrow> if s = [] then d else s)"

text \<open>
  \<^verbatim>\<open>s.replace(pat, rep)\<close> with a string pattern: the first occurrence of \<open>pat\<close>,
  wherever it is, is replaced.
\<close>

fun replace :: "string \<Rightarrow> string \<Rightarrow> string \<Rightarrow> string" where
  "replace pat rep [] = (if pat = [] then rep else [])"
| "replace pat rep (c # cs) =
     (if prefix pat (c # cs) then rep @ drop (length pat) (c # cs)
      else c # replace pat rep cs)"

datatype error = Error string

subsection \<open>Environment validation (\<^verbatim>\<open>config/env.validation.ts\<close>)\<close>

type_synonym env = "string \<Rightarrow> string option"

datatype env_error = EnvMissingError string | EnvError string

text \<open>
  envalid's validators. A variable without a default is required: an undefined value is
  reported as missing. \<^verbatim>\<open>str()\<close> passes every string through, the empty one included.
  A default is taken only for an undefined variable, without validation.
\<close>

definition str :: "env \<Rightarrow> string \<Rightarrow> env_error list" where
  "str e k = (case e k of None \<Rightarrow> [EnvMissingError k] | Some v \<Rightarrow> [])"

definition str_choices :: "string list \<Rightarrow> env \<Rightarrow> string \<Rightarrow> env_error list" where
  "str_choices choices e k =
     (case e k of None \<Rightarrow> [EnvMissingError k]
      | Some v \<Rightarrow> if v \<in> set choices then [] else [EnvError k])"

definition str_default :: "env \<Rightarrow> string \<Rightarrow> env_error list" where
  "str_default e k = (case e k of None \<Rightarrow> [] | Some v \<Rightarrow> [])"

definition port_default :: "libs \<Rightarrow> env \<Rightarrow> string \<Rightarrow> env_error list" where
  "port_default L e k =
     (case e k of None \<Rightarrow> [] | Some v \<Rightarrow> if envalid_port L v then [] else [EnvError k])"

text \<open>
  \<^verbatim>\<open>validateEnv\<close>: \<^verbatim>\<open>cleanEnv\<close> collects the errors of all variables; with any error its
  reporter ends the process. The caller discards the cleaned object, so the success
  value is \<open>()\<close>.
\<close>

definition validateEnv :: "libs \<Rightarrow> env \<Rightarrow> env_error list + unit" where
  "validateEnv L e =
     (let errors =
        str_choices [''development'', ''test'', ''production''] e ''NODE_ENV'' @
        port_default L e ''PORT'' @
        str e ''JWT_SECRET'' @
        str_default e ''DB_HOST'' @
        port_default L e ''DB_PORT'' @
        str e ''DB_USERNAME'' @
        str e ''DB_PASSWORD'' @
        str e ''DB_NAME''
      in if errors = [] then Inr () else Inl errors)"

text \<open>
  Startup: \<^verbatim>\<open>index.ts\<close> imports \<^verbatim>\<open>middleware/error.middleware.ts\<close>, whose module body
  calls \<^verbatim>\<open>validateEnv()\<close>; a failed validation exits with code 1.
\<close>

datatype process_state = Exited nat | Running

definition startup :: "libs \<Rightarrow> env \<Rightarrow> process_state" where
  "startup L e = (case validateEnv L e of Inl errors \<Rightarrow> Exited 1 | Inr u \<Rightarrow> Running)"

subsection \<open>The user table (\<^verbatim>\<open>entities/User.ts\<close>) and TypeORM\<close>

text \<open>
  A row of the table: every column is NOT NULL. \<open>id\<close> is the generated primary key, of
  the database type \<^verbatim>\<open>uuid\<close>; \<open>username\<close> and \<open>email\<close> are unique columns.
\<close>

record user_row =
  row_id :: string
  row_username :: string
  row_email :: string
  row_password :: string
  row_createdAt :: nat
  row_updatedAt :: nat

text \<open>
  A JSON scalar as it arrives in \<^verbatim>\<open>req.body\<close>. A number is kept as its JavaScript text
  \<^verbatim>\<open>String(n)\<close>. Arrays and objects are outside the model.
\<close>

datatype jvalue = JString string | JNumber string | JBool bool | JNull

text \<open>\<^verbatim>\<open>String(v)\<close>, which is also the text the database driver sends for a value.\<close>

fun js_String :: "jvalue \<Rightarrow> string" where
  "js_String (JString s) = s"
| "js_String (JNumber t) = t"
| "js_String (JBool b) = (if b then ''true'' else ''false'')"
| "js_String JNull = ''null''"

text \<open>
  A \<^verbatim>\<open>User\<close> object. \<open>password\<close> is \<open>None\<close> when the property is absent from the object;
  it holds whatever value was assigned, a string when it was loaded from the table.
  The relation \<^verbatim>\<open>dataPoints\<close> is never loaded by the queries below.
\<close>

record User =
  id' :: string
  username :: string
  email :: string
  password :: "jvalue option"
  createdAt :: nat
  updatedAt :: nat

text \<open>
  The JSON body of a request: the three fields the routes read, each possibly absent.
  \<open>username\<close> and \<open>email\<close> are modelled at their declared type, string. No validator
  restricts the type of \<open>password\<close>, so it is any scalar. A body of
  \<^verbatim>\<open>POST /api/users\<close> that sets \<open>id\<close> or the timestamps itself is outside the model.
\<close>

record req_body =
  b_username :: "string option"
  b_email :: "string option"
  b_password :: "jvalue option"

text \<open>
  The database: the rows in insertion order, and \<open>failure\<close>, the error with which the
  data source rejects every query while it is set (a lost connection, for instance).
\<close>

record db =
  users :: "user_row list"
  failure :: "string option"

text \<open>
  Loading a row into an entity. The column \<open>password\<close> is declared
  \<^verbatim>\<open>@Column({ select: false })\<close>: it is loaded only when a \<^verbatim>\<open>select\<close> list names it.
  Both select lists of this repository (the default and the explicit one) hold all other
  columns.
\<close>

definition hydrate :: "string list option \<Rightarrow> user_row \<Rightarrow> User" where
  "hydrate select r =
     \<lparr>id' = row_id r, username = row_username r, email = row_email r,
      password = (case select of
                    None \<Rightarrow> None
                  | Some cols \<Rightarrow>
                      if ''password'' \<in> set cols then Some (JString (row_password r)) else None),
      createdAt = row_createdAt r, updatedAt = row_updatedAt r\<rparr>"

text \<open>
  \<^verbatim>\<open>repository.findOne({ where, select })\<close>: the first matching row, or null. The two
  conditions of this repository are \<^verbatim>\<open>{ id }\<close> and \<^verbatim>\<open>{ email }\<close>. The database reads the
  id of the condition as a \<^verbatim>\<open>uuid\<close>: a string that is none makes the query fail, one that
  is compares by its canonical text.
\<close>

datatype where_clause = WhereId string | WhereEmail string

definition findOne ::
  "libs \<Rightarrow> db \<Rightarrow> where_clause \<Rightarrow> string list option \<Rightarrow> error + User option" where
  "findOne L d wh select =
     (case failure d of
        Some m \<Rightarrow> Inl (Error m)
      | None \<Rightarrow>
         (case wh of
            WhereId i \<Rightarrow>
              (case pg_uuid L i of
                 None \<Rightarrow> Inl (Error ''invalid input syntax for type uuid'')
               | Some c \<Rightarrow>
                   Inr (map_option (hydrate select) (find (\<lambda>r. row_id r = c) (users d))))
          | WhereEmail em \<Rightarrow>
              Inr (map_option (hydrate select) (find (\<lambda>r. row_email r = em) (users d)))))"

text \<open>\<^verbatim>\<open>repository.find()\<close>: all rows.\<close>

definition find_all :: "db \<Rightarrow> error + User list" where
  "find_all d =
     (case failure d of
        Some m \<Rightarrow> Inl (Error m)
      | None \<Rightarrow> Inr (map (hydrate None) (users d)))"

text \<open>
  \<^verbatim>\<open>repository.save(repository.create(userData))\<close>: an insert. The database rejects a
  missing or null column value and a duplicate of the primary key or of a unique
  column; otherwise the row is appended, with the password as the text of the value
  that was passed, and the entity that was passed in comes back with the generated
  columns filled in. Its \<open>password\<close> property is still the one passed in.
  The two messages stand for the texts of the database driver.
\<close>

definition save :: "db \<Rightarrow> string \<Rightarrow> nat \<Rightarrow> req_body \<Rightarrow> error + (db \<times> User)" where
  "save d uuid now userData =
     (case failure d of
        Some m \<Rightarrow> Inl (Error m)
      | None \<Rightarrow>
         (case (b_username userData, b_email userData, b_password userData) of
            (Some u, Some e, Some p) \<Rightarrow>
              if p = JNull then Inl (Error ''null value violates not-null constraint'')
              else if uuid \<in> row_id ` set (users d) \<or> u \<in> row_username ` set (users d)
                 \<or> e \<in> row_email ` set (users d)
              then Inl (Error ''duplicate key value violates unique constraint'')
              else Inr (d\<lparr>users := users d @
                           [\<lparr>row_id = uuid, row_username = u, row_email = e,
                             row_password = js_String p,
                             row_createdAt = now, row_updatedAt = now\<rparr>]\<rparr>,
                        \<lparr>id' = uuid, username = u, email = e, password = Some p,
                         createdAt = now, updatedAt = now\<rparr>)
          | _ \<Rightarrow> Inl (Error ''null value violates not-null constraint'')))"

subsection \<open>\<^verbatim>\<open>repositories/UserRepository.ts\<close>\<close>

definition UserRepository_create :: "db \<Rightarrow> string \<Rightarrow> nat \<Rightarrow> req_body \<Rightarrow> error + (db \<times> User)" where
  "UserRepository_create d uuid now userData = save d uuid now userData"

definition UserRepository_findById :: "libs \<Rightarrow> db \<Rightarrow> string \<Rightarrow> error + User option" where
  "UserRepository_findById L d i = findOne L d (WhereId i) None"

definition UserRepository_findByEmail :: "libs \<Rightarrow> db \<Rightarrow> string \<Rightarrow> error + User option" where
  "UserRepository_findByEmail L d em =
     findOne L d (WhereEmail em)
       (Some [''id'', ''email'', ''username'', ''password'', ''createdAt'', ''updatedAt''])"

definition UserRepository_findAll :: "db \<Rightarrow> error + User list" where
  "UserRepository_findAll d = find_all d"

subsection \<open>\<^verbatim>\<open>repositories/user.repository.ts\<close> (the second repository class)\<close>

definition user_repository_findById :: "libs \<Rightarrow> db \<Rightarrow> string \<Rightarrow> error + User option" where
  "user_repository_findById L d i = findOne L d (WhereId i) None"

definition user_repository_findByEmail :: "libs \<Rightarrow> db \<Rightarrow> string \<Rightarrow> error + User option" where
  "user_repository_findByEmail L d em =
     findOne L d (WhereEmail em)
       (Some [''id'', ''email'', ''username'', ''password'', ''createdAt'', ''updatedAt''])"

definition user_repository_create :: "db \<Rightarrow> string \<Rightarrow> nat \<Rightarrow> req_body \<Rightarrow> error + (db \<times> User)" where
  "user_repository_create d uuid now userData = save d uuid now userData"

subsection \<open>\<^verbatim>\<open>services/auth.service.ts\<close>\<close>

text \<open>
  The two bcrypt calls as JavaScript makes them, on any value: before it computes,
  the library rejects a null or undefined argument and an argument that is not a
  string.
\<close>

definition bcrypt_hash_js :: "libs \<Rightarrow> string \<Rightarrow> jvalue \<Rightarrow> error + string" where
  "bcrypt_hash_js L salt data =
     (case data of
        JString p \<Rightarrow> Inr (bcrypt_hash L salt p)
      | JNull \<Rightarrow> Inl (Error ''data and salt arguments required'')
      | _ \<Rightarrow> Inl (Error ''data must be a string or Buffer and salt must either be a salt string or a number of rounds''))"

definition bcrypt_compare_js :: "libs \<Rightarrow> jvalue \<Rightarrow> jvalue option \<Rightarrow> error + bool" where
  "bcrypt_compare_js L data hash =
     (if data = JNull \<or> hash = None \<or> hash = Some JNull
      then Inl (Error ''data and hash arguments required'')
      else
        (case (data, hash) of
           (JString p, Some (JString h)) \<Rightarrow> Inr (bcrypt_compare L p h)
         | _ \<Rightarrow> Inl (Error ''data and hash must be strings'')))"

definition generateToken :: "libs \<Rightarrow> env \<Rightarrow> nat \<Rightarrow> string \<Rightarrow> string" where
  "generateToken L e now userId =
     jwt_sign L (js_or (e ''JWT_SECRET'') ''your-secret-key'')
       \<lparr>payload_id = userId, iat = now, exp = now + 24 * 60 * 60\<rparr>"

text \<open>
  \<^verbatim>\<open>register\<close>: hash, create, strip the password, issue the token. A rejection by
  \<^verbatim>\<open>bcrypt.hash\<close> or by \<^verbatim>\<open>create\<close> propagates to the caller and leaves the table as it
  was. The route hands over \<^verbatim>\<open>req.body\<close> as it is, so the password is any scalar.
\<close>

record userData =
  d_username :: string
  d_email :: string
  d_password :: jvalue

definition register ::
  "libs \<Rightarrow> env \<Rightarrow> db \<Rightarrow> string \<Rightarrow> string \<Rightarrow> nat \<Rightarrow> userData \<Rightarrow> error + (db \<times> User \<times> string)" where
  "register L e d salt uuid now ud =
     (case bcrypt_hash_js L salt (d_password ud) of
        Inl err \<Rightarrow> Inl err
      | Inr hashedPassword \<Rightarrow>
         (case UserRepository_create d uuid now
                 \<lparr>b_username = Some (d_username ud), b_email = Some (d_email ud),
                  b_password = Some (JString hashedPassword)\<rparr> of
            Inl err \<Rightarrow> Inl err
          | Inr (d', user) \<Rightarrow>
              let userWithoutPassword = user\<lparr>password := None\<rparr>;
                  token = generateToken L e now (id' user)
              in Inr (d', userWithoutPassword, token)))"

text \<open>
  \<^verbatim>\<open>login\<close>. The route hands over \<^verbatim>\<open>req.body.password\<close> as it is, so the password is
  any scalar; \<^verbatim>\<open>bcrypt.compare\<close> is reached only when a user was found.
\<close>

definition login ::
  "libs \<Rightarrow> env \<Rightarrow> db \<Rightarrow> nat \<Rightarrow> string \<Rightarrow> jvalue \<Rightarrow> error + (User \<times> string)" where
  "login L e d now em pw =
     (case UserRepository_findByEmail L d em of
        Inl err \<Rightarrow> Inl err
      | Inr None \<Rightarrow> Inl (Error ''Invalid login credentials'')
      | Inr (Some user) \<Rightarrow>
         (case bcrypt_compare_js L pw (password user) of
            Inl err \<Rightarrow> Inl err
          | Inr isPasswordValid \<Rightarrow>
              if \<not> isPasswordValid then Inl (Error ''Invalid login credentials'')
              else
                let userWithoutPassword = user\<lparr>password := None\<rparr>;
                    token = generateToken L e now (id' user)
                in Inr (userWithoutPassword, token)))"

subsection \<open>HTTP requests and responses\<close>

record request =
  authorization :: "string option"  \<comment> \<open>\<^verbatim>\<open>req.header('Authorization')\<close>\<close>
  body :: req_body                  \<comment> \<open>\<^verbatim>\<open>req.body\<close>\<close>
  params_id :: string               \<comment> \<open>\<^verbatim>\<open>req.params.id\<close>\<close>

text \<open>\<^verbatim>\<open>AuthRequest\<close>: the request with the decoded token at \<^verbatim>\<open>req.user\<close>.\<close>

record AuthRequest = request +
  req_user :: jwt_payload

text \<open>One entry of express-validator's \<^verbatim>\<open>errors.array()\<close>; it echoes the rejected value.\<close>

record field_error =
  f_path :: string
  f_value :: "jvalue option"
  f_msg :: string

text \<open>
  The JSON bodies the handlers send: a user object, \<^verbatim>\<open>{ user, token }\<close>,
  \<^verbatim>\<open>{ error }\<close> and \<^verbatim>\<open>{ errors }\<close>. A user object is serialised with the properties it
  has: the key \<^verbatim>\<open>password\<close> is in the JSON exactly when the property is defined.
\<close>

datatype json = JUser User | JUserToken User string | JError string | JErrors "field_error list"

record response =
  status :: nat
  json :: json

text \<open>The body holds a user object with a \<^verbatim>\<open>password\<close> property.\<close>

fun has_password :: "json \<Rightarrow> bool" where
  "has_password (JUser u) = (password u \<noteq> None)"
| "has_password (JUserToken u t) = (password u \<noteq> None)"
| "has_password (JError m) = False"
| "has_password (JErrors es) = False"

subsection \<open>\<^verbatim>\<open>middleware/auth.middleware.ts\<close>\<close>

text \<open>
  A middleware either sends a response, and the chain ends there, or calls
  \<^verbatim>\<open>next()\<close> with the request it has updated.
\<close>

datatype 'r mw_result = Respond response | Next 'r

definition auth :: "libs \<Rightarrow> env \<Rightarrow> nat \<Rightarrow> request \<Rightarrow> AuthRequest mw_result" where
  "auth L e now req =
     (case map_option (replace ''Bearer '' []) (authorization req) of
        None \<Rightarrow> Respond \<lparr>status = 401, json = JError ''Please authenticate''\<rparr>
      | Some token \<Rightarrow>
          if token = [] then Respond \<lparr>status = 401, json = JError ''Please authenticate''\<rparr>
          else
            (case jwt_verify L (js_or (e ''JWT_SECRET'') ''your-secret-key'') now token of
               None \<Rightarrow> Respond \<lparr>status = 401, json = JError ''Please authenticate''\<rparr>
             | Some decoded \<Rightarrow>
                 Next \<lparr>authorization = authorization req, body = body req,
                       params_id = params_id req, req_user = decoded\<rparr>))"

text \<open>
  \<^verbatim>\<open>router.get(path, mw, handler)\<close>: the handler runs only when the middleware
  calls \<^verbatim>\<open>next()\<close>. A handler reads the database and sends a response.
\<close>

definition route :: "('q \<Rightarrow> 'r mw_result) \<Rightarrow> (db \<Rightarrow> 'r \<Rightarrow> db \<times> response) \<Rightarrow> db \<Rightarrow> 'q \<Rightarrow> db \<times> response" where
  "route mw handler d req =
     (case mw req of Respond res \<Rightarrow> (d, res) | Next req' \<Rightarrow> handler d req')"

subsection \<open>\<^verbatim>\<open>routes/auth.routes.ts\<close>\<close>

text \<open>
  express-validator: every validator of a chain that fails adds one error with the
  default message. A standard validator works on the string of the value, which is
  empty for an absent or null field; \<^verbatim>\<open>isString\<close> and \<^verbatim>\<open>exists\<close> look at the value
  itself.
\<close>

definition to_string :: "jvalue option \<Rightarrow> string" where
  "to_string v = (case v of None \<Rightarrow> [] | Some JNull \<Rightarrow> [] | Some x \<Rightarrow> js_String x)"

definition check :: "bool \<Rightarrow> string \<Rightarrow> jvalue option \<Rightarrow> field_error list" where
  "check ok path v = (if ok then [] else [\<lparr>f_path = path, f_value = v, f_msg = ''Invalid value''\<rparr>])"

definition validate_register :: "libs \<Rightarrow> req_body \<Rightarrow> field_error list" where
  "validate_register L b =
     check (b_username b \<noteq> None) ''username'' (map_option JString (b_username b)) @
     check (to_string (map_option JString (b_username b)) \<noteq> []) ''username''
       (map_option JString (b_username b)) @
     check (isEmail L (to_string (map_option JString (b_email b)))) ''email''
       (map_option JString (b_email b)) @
     check (6 \<le> length (to_string (b_password b))) ''password'' (b_password b)"

definition validate_token :: "libs \<Rightarrow> req_body \<Rightarrow> field_error list" where
  "validate_token L b =
     check (isEmail L (to_string (map_option JString (b_email b)))) ''email''
       (map_option JString (b_email b)) @
     check (b_password b \<noteq> None) ''password'' (b_password b)"

text \<open>
  \<^verbatim>\<open>POST /api/auth/register\<close>. Past the validators the three fields are present; the
  last case stands for a body that passed them with a field absent, which only a
  validator accepting the empty string as an email would allow.
\<close>

definition post_auth_register ::
  "libs \<Rightarrow> env \<Rightarrow> db \<Rightarrow> string \<Rightarrow> string \<Rightarrow> nat \<Rightarrow> request \<Rightarrow> db \<times> response" where
  "post_auth_register L e d salt uuid now req =
     (let errors = validate_register L (body req) in
      if errors \<noteq> [] then (d, \<lparr>status = 400, json = JErrors errors\<rparr>)
      else
        (case (b_username (body req), b_email (body req), b_password (body req)) of
           (Some u, Some em, Some pw) \<Rightarrow>
             (case register L e d salt uuid now \<lparr>d_username = u, d_email = em, d_password = pw\<rparr> of
                Inr (d', user, token) \<Rightarrow> (d', \<lparr>status = 201, json = JUserToken user token\<rparr>)
              | Inl (Error m) \<Rightarrow> (d, \<lparr>status = 400, json = JError m\<rparr>))
         | _ \<Rightarrow> (d, \<lparr>status = 400, json = JError ''null value violates not-null constraint''\<rparr>)))"

text \<open>
  \<^verbatim>\<open>POST /api/auth/token\<close>; \<^verbatim>\<open>res.json\<close> without a status sends 200. The message of
  whatever \<^verbatim>\<open>login\<close> throws is sent with the 401.
\<close>

definition post_auth_token :: "libs \<Rightarrow> env \<Rightarrow> db \<Rightarrow> nat \<Rightarrow> request \<Rightarrow> db \<times> response" where
  "post_auth_token L e d now req =
     (let errors = validate_token L (body req) in
      if errors \<noteq> [] then (d, \<lparr>status = 400, json = JErrors errors\<rparr>)
      else
        (case (b_email (body req), b_password (body req)) of
           (Some em, Some pw) \<Rightarrow>
             (case login L e d now em pw of
                Inr (user, token) \<Rightarrow> (d, \<lparr>status = 200, json = JUserToken user token\<rparr>)
              | Inl (Error m) \<Rightarrow> (d, \<lparr>status = 401, json = JError m\<rparr>))
         | _ \<Rightarrow> (d, \<lparr>status = 401, json = JError ''Invalid login credentials''\<rparr>)))"

text \<open>The handler of \<^verbatim>\<open>GET /api/auth/login\<close>, on the second repository class.\<close>

definition auth_login_handler :: "libs \<Rightarrow> db \<Rightarrow> AuthRequest \<Rightarrow> db \<times> response" where
  "auth_login_handler L d req =
     (case user_repository_findById L d (payload_id (req_user req)) of
        Inr None \<Rightarrow> (d, \<lparr>status = 404, json = JError ''User not found''\<rparr>)
      | Inr (Some u) \<Rightarrow> (d, \<lparr>status = 200, json = JUser (u\<lparr>password := None\<rparr>)\<rparr>)
      | Inl (Error m) \<Rightarrow> (d, \<lparr>status = 500, json = JError m\<rparr>))"

definition get_auth_login :: "libs \<Rightarrow> env \<Rightarrow> db \<Rightarrow> nat \<Rightarrow> request \<Rightarrow> db \<times> response" where
  "get_auth_login L e d now req = route (auth L e now) (auth_login_handler L) d req"

subsection \<open>\<^verbatim>\<open>routes/user.routes.ts\<close>\<close>

text \<open>The handler of \<^verbatim>\<open>GET /api/users/login\<close>, on the first repository class.\<close>

definition users_login_handler :: "libs \<Rightarrow> db \<Rightarrow> AuthRequest \<Rightarrow> db \<times> response" where
  "users_login_handler L d req =
     (case UserRepository_findById L d (payload_id (req_user req)) of
        Inr None \<Rightarrow> (d, \<lparr>status = 404, json = JError ''User not found''\<rparr>)
      | Inr (Some u) \<Rightarrow> (d, \<lparr>status = 200, json = JUser (u\<lparr>password := None\<rparr>)\<rparr>)
      | Inl (Error m) \<Rightarrow> (d, \<lparr>status = 400, json = JError m\<rparr>))"

definition get_users_login :: "libs \<Rightarrow> env \<Rightarrow> db \<Rightarrow> nat \<Rightarrow> request \<Rightarrow> db \<times> response" where
  "get_users_login L e d now req = route (auth L e now) (users_login_handler L) d req"

text \<open>\<^verbatim>\<open>POST /api/users\<close>: the created entity is sent as it comes back from \<^verbatim>\<open>create\<close>.\<close>

definition post_users :: "db \<Rightarrow> string \<Rightarrow> nat \<Rightarrow> request \<Rightarrow> db \<times> response" where
  "post_users d uuid now req =
     (case UserRepository_create d uuid now (body req) of
        Inr (d', u) \<Rightarrow> (d', \<lparr>status = 201, json = JUser u\<rparr>)
      | Inl (Error m) \<Rightarrow> (d, \<lparr>status = 400, json = JError m\<rparr>))"

text \<open>\<^verbatim>\<open>GET /api/users/:id\<close>.\<close>

definition get_users_id :: "libs \<Rightarrow> db \<Rightarrow> request \<Rightarrow> db \<times> response" where
  "get_users_id L d req =
     (case UserRepository_findById L d (params_id req) of
        Inr None \<Rightarrow> (d, \<lparr>status = 404, json = JError ''User not found''\<rparr>)
      | Inr (Some u) \<Rightarrow> (d, \<lparr>status = 200, json = JUser u\<rparr>)
      | Inl (Error m) \<Rightarrow> (d, \<lparr>status = 400, json = JError m\<rparr>))"

subsection \<open>A small instance of the libraries\<close>

text \<open>
  Stand-ins that meet \<open>bcrypt_ok\<close>, \<open>bcrypt_no_self_hash\<close> and \<open>jwt_ok\<close>, for running the
  model on concrete requests. The hash is the plaintext behind a marker. A token
  writes the two timestamps and the length of the id in unary, then the id, then the
  secret as its signature. A uuid is a string of 36 lower-case hexadecimal digits and
  hyphens, and is its own canonical text.
\<close>

definition toy_hash :: "string \<Rightarrow> string \<Rightarrow> string" where
  "toy_hash salt p = ''$2b$10$'' @ p"

definition toy_compare :: "string \<Rightarrow> string \<Rightarrow> bool" where
  "toy_compare p h \<longleftrightarrow> h = ''$2b$10$'' @ p"

definition toy_sign :: "string \<Rightarrow> jwt_payload \<Rightarrow> string" where
  "toy_sign secret c =
     replicate (iat c) CHR ''i'' @ CHR ''.'' #
     replicate (exp c) CHR ''e'' @ CHR ''.'' #
     replicate (length (payload_id c)) CHR ''n'' @ CHR ''.'' #
     payload_id c @ secret"

definition toy_decode :: "string \<Rightarrow> jwt_payload \<times> string" where
  "toy_decode t =
     (let i = takeWhile (\<lambda>c. c = CHR ''i'') t;
          r1 = drop (Suc (length i)) t;
          x = takeWhile (\<lambda>c. c = CHR ''e'') r1;
          r2 = drop (Suc (length x)) r1;
          n = takeWhile (\<lambda>c. c = CHR ''n'') r2;
          r3 = drop (Suc (length n)) r2
      in (\<lparr>payload_id = take (length n) r3, iat = length i, exp = length x\<rparr>,
          drop (length n) r3))"

definition toy_matches :: "string \<Rightarrow> string \<Rightarrow> bool" where
  "toy_matches secret t \<longleftrightarrow> toy_sign secret (fst (toy_decode t)) = t"

definition toy_verify :: "string \<Rightarrow> nat \<Rightarrow> string \<Rightarrow> jwt_payload option" where
  "toy_verify secret now t =
     (if toy_matches secret t \<and> now < exp (fst (toy_decode t))
      then Some (fst (toy_decode t)) else None)"

definition toy_port :: "string \<Rightarrow> bool" where
  "toy_port v \<longleftrightarrow> v \<in> {''3000'', ''3001'', ''5432''}"

definition toy_uuid :: "string \<Rightarrow> string option" where
  "toy_uuid v =
     (if length v = 36 \<and> list_all (\<lambda>c. c \<in> set ''0123456789abcdef-'') v then Some v else None)"

definition toy :: libs where
  "toy = \<lparr>bcrypt_hash = toy_hash, bcrypt_compare = toy_compare,
          jwt_sign = toy_sign, jwt_verify = toy_verify, jwt_signature_matches = toy_matches,
          isEmail = (\<lambda>s. CHR ''@'' \<in> set s), envalid_port = toy_port, pg_uuid = toy_uuid\<rparr>"

text \<open>The environment of \<^verbatim>\<open>__tests__/setup.ts\<close>, and a request with nothing in it.\<close>

definition test_env :: env where
  "test_env =
     [''NODE_ENV'' \<mapsto> ''test'', ''PORT'' \<mapsto> ''3001'', ''DB_HOST'' \<mapsto> ''localhost'',
      ''DB_PORT'' \<mapsto> ''5432'', ''DB_USERNAME'' \<mapsto> ''yaver_test'',
      ''DB_PASSWORD'' \<mapsto> ''yaver_test'', ''DB_NAME'' \<mapsto> ''yaver_test_db'',
      ''JWT_SECRET'' \<mapsto> ''test-jwt-secret-key'']"

definition empty_db :: db where
  "empty_db = \<lparr>users = [], failure = None\<rparr>"

definition no_body :: req_body where
  "no_body = \<lparr>b_username = None, b_email = None, b_password = None\<rparr>"

definition alice :: req_body where
  "alice = \<lparr>b_username = Some ''alice'', b_email = Some ''a@x.com'',
            b_password = Some (JString ''secret1'')\<rparr>"

subsection \<open>Requests and tables used in the statements\<close>

text \<open>A login request with the two credentials, and a request carrying a bearer token.\<close>

definition credentials :: "string \<Rightarrow> jvalue \<Rightarrow> request" where
  "credentials em pw =
     \<lparr>authorization = None,
      body = \<lparr>b_username = None, b_email = Some em, b_password = Some pw\<rparr>, params_id = []\<rparr>"

definition bearer :: "string \<Rightarrow> request" where
  "bearer t = \<lparr>authorization = Some (''Bearer '' @ t), body = no_body, params_id = []\<rparr>"

text \<open>
  The constraints of the table. The primary key and the two
  \<^verbatim>\<open>@Column({ unique: true })\<close> columns are unique; the primary key is a
  \<^verbatim>\<open>uuid\<close>, stored as its canonical text.
\<close>

definition unique_columns :: "db \<Rightarrow> bool" where
  "unique_columns d \<longleftrightarrow>
     distinct (map row_id (users d)) \<and> distinct (map row_username (users d)) \<and>
     distinct (map row_email (users d))"

definition uuid_keys :: "libs \<Rightarrow> db \<Rightarrow> bool" where
  "uuid_keys L d \<longleftrightarrow> (\<forall>r \<in> set (users d). pg_uuid L (row_id r) = Some (row_id r))"

definition alice_id :: string where
  "alice_id = ''123e4567-e89b-12d3-a456-426614174000''"

definition other_id :: string where
  "other_id = ''00000000-0000-4000-8000-000000000000''"

definition alice_row :: user_row where
  "alice_row = \<lparr>row_id = alice_id, row_username = ''alice'', row_email = ''a@x.com'',
                row_password = ''$2b$10$secret1'', row_createdAt = 0, row_updatedAt = 0\<rparr>"

definition alice_db :: db where
  "alice_db = \<lparr>users = [alice_row], failure = None\<rparr>"

definition broken_db :: db where
  "broken_db = \<lparr>users = [alice_row], failure = Some ''Connection terminated''\<rparr>"

text \<open>
  The token issued at time 0 for an id under the test environment, and the request the
  middleware hands to a handler for it.
\<close>

definition token_for :: "string \<Rightarrow> string" where
  "token_for U = generateToken toy test_env 0 U"

definition authenticated :: "string \<Rightarrow> AuthRequest" where
  "authenticated U =
     \<lparr>authorization = Some (''Bearer '' @ token_for U), body = no_body, params_id = [],
      req_user = \<lparr>payload_id = U, iat = 0, exp = 86400\<rparr>\<rparr>"

section \<open>Properties\<close>

subsection \<open>The stand-in libraries meet the contracts\<close>

lemma takeWhile_replicate_sep:
  "b \<noteq> a \<Longrightarrow> takeWhile (\<lambda>c. c = a) (replicate n a @ b # rest) = replicate n a"
  by (induction n) simp_all

lemma toy_decode_sign: "toy_decode (toy_sign secret c) = (c, secret)"
  by (simp add: toy_decode_def toy_sign_def takeWhile_replicate_sep Let_def)

lemma toy_sign_nonempty: "toy_sign secret c \<noteq> []"
  by (simp add: toy_sign_def)

lemma toy_bcrypt_ok: "bcrypt_ok toy"
  by (simp add: bcrypt_ok_def toy_def toy_hash_def toy_compare_def)

lemma toy_jwt_ok: "jwt_ok toy"
  by (simp add: jwt_ok_def toy_def toy_verify_def toy_matches_def toy_decode_sign
      toy_sign_nonempty)

lemma toy_no_self_hash: "bcrypt_no_self_hash toy"
  by (simp add: bcrypt_no_self_hash_def toy_def toy_compare_def)

lemma toy_other_secret:
  "secret' \<noteq> secret \<Longrightarrow> \<not> jwt_signature_matches toy secret (jwt_sign toy secret' c)"
  by (simp add: toy_def toy_matches_def toy_decode_sign) (simp add: toy_sign_def)

lemma toy_uuids:
  "pg_uuid toy alice_id = Some alice_id"
  "pg_uuid toy other_id = Some other_id"
  "pg_uuid toy ''u1'' = None"
  "other_id \<noteq> alice_id" "alice_id \<noteq> other_id"
  by (simp_all add: toy_def toy_uuid_def alice_id_def other_id_def)

lemma test_secret: "js_or (test_env ''JWT_SECRET'') ''your-secret-key'' = ''test-jwt-secret-key''"
  by (simp add: js_or_def test_env_def)

lemma alice_db_unique: "unique_columns alice_db"
  by (simp add: unique_columns_def alice_db_def)

lemma alice_db_uuid_keys: "uuid_keys toy alice_db"
  by (simp add: uuid_keys_def alice_db_def alice_row_def toy_uuids)

subsection \<open>Extracting the bearer token\<close>

lemma replace_prefix: "pat \<noteq> [] \<Longrightarrow> replace pat rep (pat @ s) = rep @ s"
  by (cases pat) simp_all

lemma replace_Bearer: "replace ''Bearer '' [] (''Bearer '' @ t) = t"
  using replace_prefix [of "''Bearer ''" "[]" t] by simp

subsection \<open>The middleware, case by case\<close>

lemma auth_cases:
  "auth L e now req =
     (case authorization req of
        None \<Rightarrow> Respond \<lparr>status = 401, json = JError ''Please authenticate''\<rparr>
      | Some h \<Rightarrow>
          if replace ''Bearer '' [] h = []
          then Respond \<lparr>status = 401, json = JError ''Please authenticate''\<rparr>
          else (case jwt_verify L (js_or (e ''JWT_SECRET'') ''your-secret-key'') now
                       (replace ''Bearer '' [] h) of
                  None \<Rightarrow> Respond \<lparr>status = 401, json = JError ''Please authenticate''\<rparr>
                | Some decoded \<Rightarrow>
                    Next \<lparr>authorization = authorization req, body = body req,
                          params_id = params_id req, req_user = decoded\<rparr>))"
  by (simp add: auth_def split: option.splits)

lemma auth_Respond:
  "auth L e now req = Respond res \<Longrightarrow>
   res = \<lparr>status = 401, json = JError ''Please authenticate''\<rparr>"
  by (auto simp: auth_cases split: option.splits if_splits)

lemma auth_issued:
  assumes "jwt_ok L" and "now' < now + 86400"
  shows "auth L e now' (bearer (generateToken L e now U)) =
           Next \<lparr>authorization = Some (''Bearer '' @ generateToken L e now U),
                 body = no_body, params_id = [],
                 req_user = \<lparr>payload_id = U, iat = now, exp = now + 86400\<rparr>\<rparr>"
  using assms
  by (simp add: auth_cases bearer_def replace_Bearer generateToken_def jwt_ok_def)

lemma auth_rejected:
  assumes "jwt_ok L"
    and "\<not> jwt_signature_matches L (js_or (e ''JWT_SECRET'') ''your-secret-key'') t"
  shows "auth L e now (bearer t) = Respond \<lparr>status = 401, json = JError ''Please authenticate''\<rparr>"
  using assms by (simp add: auth_cases bearer_def replace_Bearer jwt_ok_def)

subsection \<open>Lookups in the table\<close>

lemma find_distinct:
  "distinct (map f xs) \<Longrightarrow> r \<in> set xs \<Longrightarrow> find (\<lambda>x. f x = f r) xs = Some r"
  by (induction xs) auto

lemma find_None_image: "k \<notin> f ` set xs \<Longrightarrow> find (\<lambda>r. f r = k) xs = None"
  by (auto simp: find_None_iff)

lemma find_append_new:
  "k \<notin> f ` set xs \<Longrightarrow> f r = k \<Longrightarrow> find (\<lambda>x. f x = k) (xs @ [r]) = Some r"
  by (induction xs) auto

text \<open>The two repository classes are the same functions of the table.\<close>

lemma repositories_agree:
  "user_repository_findById = UserRepository_findById"
  "user_repository_findByEmail = UserRepository_findByEmail"
  "user_repository_create = UserRepository_create"
  by (simp_all add: fun_eq_iff user_repository_findById_def UserRepository_findById_def
      user_repository_findByEmail_def UserRepository_findByEmail_def
      user_repository_create_def UserRepository_create_def)

text \<open>
  The constraints hold of the empty table and are kept by every insert under a key
  that is a uuid, as the keys the database generates are.
\<close>

lemma unique_columns_empty: "unique_columns empty_db"
  by (simp add: unique_columns_def empty_db_def)

lemma uuid_keys_empty: "uuid_keys L empty_db"
  by (simp add: uuid_keys_def empty_db_def)

lemma save_unique_columns:
  "unique_columns d \<Longrightarrow> save d uuid now b = Inr (d', u) \<Longrightarrow> unique_columns d'"
  by (auto simp: save_def unique_columns_def split: option.splits if_splits)

lemma save_uuid_keys:
  "uuid_keys L d \<Longrightarrow> pg_uuid L uuid = Some uuid \<Longrightarrow> save d uuid now b = Inr (d', u) \<Longrightarrow>
   uuid_keys L d'"
  by (auto simp: save_def uuid_keys_def split: option.splits if_splits)

lemma save_fresh:
  assumes "failure d = None" and "uuid \<notin> row_id ` set (users d)"
    and "u \<notin> row_username ` set (users d)" and "em \<notin> row_email ` set (users d)"
  shows "save d uuid now \<lparr>b_username = Some u, b_email = Some em, b_password = Some (JString p)\<rparr> =
     Inr (d\<lparr>users := users d @
                [\<lparr>row_id = uuid, row_username = u, row_email = em, row_password = p,
                  row_createdAt = now, row_updatedAt = now\<rparr>]\<rparr>,
          \<lparr>id' = uuid, username = u, email = em, password = Some (JString p),
           createdAt = now, updatedAt = now\<rparr>)"
  using assms by (simp add: save_def)

text \<open>A failed insert leaves no trace: the handler returns the table it was given.\<close>

lemma post_users_failed:
  "post_users d uuid now req = (d', res) \<Longrightarrow> status res \<noteq> 201 \<Longrightarrow> d' = d"
  by (auto simp: post_users_def split: sum.splits error.splits)

lemma findById_cases:
  "UserRepository_findById L d i =
     (case failure d of
        Some m \<Rightarrow> Inl (Error m)
      | None \<Rightarrow>
         (case pg_uuid L i of
            None \<Rightarrow> Inl (Error ''invalid input syntax for type uuid'')
          | Some c \<Rightarrow> Inr (map_option (hydrate None) (find (\<lambda>r. row_id r = c) (users d)))))"
  by (simp add: UserRepository_findById_def findOne_def split: option.splits)

lemma findByEmail_cases:
  "UserRepository_findByEmail L d em =
     (case failure d of
        Some m \<Rightarrow> Inl (Error m)
      | None \<Rightarrow>
          Inr (map_option (\<lambda>r. (hydrate None r)\<lparr>password := Some (JString (row_password r))\<rparr>)
                 (find (\<lambda>r. row_email r = em) (users d))))"
  by (cases "find (\<lambda>r. row_email r = em) (users d)")
     (simp_all add: UserRepository_findByEmail_def findOne_def hydrate_def split: option.splits)

lemma findById_stored:
  assumes "failure d = None" and "unique_columns d" and "uuid_keys L d" and "r \<in> set (users d)"
  shows "UserRepository_findById L d (row_id r) = Inr (Some (hydrate None r))"
proof -
  have "find (\<lambda>x. row_id x = row_id r) (users d) = Some r"
    using assms(2,4) by (simp add: unique_columns_def find_distinct)
  moreover have "pg_uuid L (row_id r) = Some (row_id r)"
    using assms(3,4) by (simp add: uuid_keys_def)
  ultimately show ?thesis using assms(1) by (simp add: findById_cases)
qed

subsection \<open>The login service on a given table\<close>

lemma login_unregistered:
  "failure d = None \<Longrightarrow> em \<notin> row_email ` set (users d) \<Longrightarrow>
   login L e d now em pw = Inl (Error ''Invalid login credentials'')"
  by (simp add: login_def findByEmail_cases find_None_image)

lemma login_registered:
  "failure d = None \<Longrightarrow> find (\<lambda>r. row_email r = em) (users d) = Some r \<Longrightarrow>
   login L e d now em (JString pw) =
     (if bcrypt_compare L pw (row_password r)
      then Inr (hydrate None r, generateToken L e now (row_id r))
      else Inl (Error ''Invalid login credentials''))"
  by (simp add: login_def findByEmail_cases bcrypt_compare_js_def hydrate_def)

lemma login_registered_null:
  "failure d = None \<Longrightarrow> find (\<lambda>r. row_email r = em) (users d) = Some r \<Longrightarrow>
   login L e d now em JNull = Inl (Error ''data and hash arguments required'')"
  by (simp add: login_def findByEmail_cases bcrypt_compare_js_def)

lemma login_registered_not_string:
  "failure d = None \<Longrightarrow> find (\<lambda>r. row_email r = em) (users d) = Some r \<Longrightarrow>
   pw = JNumber t \<or> pw = JBool b \<Longrightarrow>
   login L e d now em pw = Inl (Error ''data and hash must be strings'')"
  by (auto simp: login_def findByEmail_cases bcrypt_compare_js_def)

lemma validate_token_ok: "isEmail L em \<Longrightarrow> validate_token L (body (credentials em pw)) = []"
  by (simp add: validate_token_def credentials_def check_def to_string_def)

lemma post_auth_token_valid:
  "isEmail L em \<Longrightarrow>
   post_auth_token L e d now (credentials em pw) =
     (case login L e d now em pw of
        Inr (user, token) \<Rightarrow> (d, \<lparr>status = 200, json = JUserToken user token\<rparr>)
      | Inl (Error m) \<Rightarrow> (d, \<lparr>status = 401, json = JError m\<rparr>))"
  using validate_token_ok [of L em pw]
  by (simp add: post_auth_token_def) (simp add: credentials_def)

text \<open>
  For passwords that are strings the two failures of \<^verbatim>\<open>login\<close> cannot be told apart.
\<close>

lemma login_indistinguishable_strings:
  assumes "failure d = None" and "unique_columns d"
    and "isEmail L e1" and "e1 \<notin> row_email ` set (users d)"
    and "r \<in> set (users d)" and "isEmail L (row_email r)"
    and "\<not> bcrypt_compare L p2 (row_password r)"
  shows "post_auth_token L e d now1 (credentials e1 (JString p1))
           = (d, \<lparr>status = 401, json = JError ''Invalid login credentials''\<rparr>)"
    and "post_auth_token L e d now2 (credentials (row_email r) (JString p2))
           = (d, \<lparr>status = 401, json = JError ''Invalid login credentials''\<rparr>)"
proof -
  have f: "find (\<lambda>x. row_email x = row_email r) (users d) = Some r"
    using assms(2,5) by (simp add: unique_columns_def find_distinct)
  show "post_auth_token L e d now1 (credentials e1 (JString p1))
           = (d, \<lparr>status = 401, json = JError ''Invalid login credentials''\<rparr>)"
    using login_unregistered [OF assms(1,4)] by (simp add: post_auth_token_valid [OF assms(3)])
  show "post_auth_token L e d now2 (credentials (row_email r) (JString p2))
           = (d, \<lparr>status = 401, json = JError ''Invalid login credentials''\<rparr>)"
    using login_registered [OF assms(1) f] assms(7)
    by (simp add: post_auth_token_valid [OF assms(6)])
qed

subsection \<open>The two protected handlers on each outcome of the lookup\<close>

lemma handlers_failure:
  assumes "failure d = Some m"
  shows "auth_login_handler L d req = (d, \<lparr>status = 500, json = JError m\<rparr>)"
    and "users_login_handler L d req = (d, \<lparr>status = 400, json = JError m\<rparr>)"
  using assms
  by (simp_all add: auth_login_handler_def users_login_handler_def repositories_agree
      findById_cases)

lemma handlers_not_uuid:
  assumes "failure d = None" and "pg_uuid L (payload_id (req_user req)) = None"
  shows "auth_login_handler L d req =
           (d, \<lparr>status = 500, json = JError ''invalid input syntax for type uuid''\<rparr>)"
    and "users_login_handler L d req =
           (d, \<lparr>status = 400, json = JError ''invalid input syntax for type uuid''\<rparr>)"
  using assms
  by (simp_all add: auth_login_handler_def users_login_handler_def repositories_agree
      findById_cases)

lemma handlers_absent:
  assumes "failure d = None" and "pg_uuid L (payload_id (req_user req)) = Some c"
    and "find (\<lambda>x. row_id x = c) (users d) = None"
  shows "auth_login_handler L d req = (d, \<lparr>status = 404, json = JError ''User not found''\<rparr>)"
    and "users_login_handler L d req = (d, \<lparr>status = 404, json = JError ''User not found''\<rparr>)"
  using assms
  by (simp_all add: auth_login_handler_def users_login_handler_def repositories_agree
      findById_cases)

lemma handlers_found:
  assumes "failure d = None" and "pg_uuid L (payload_id (req_user req)) = Some c"
    and "find (\<lambda>x. row_id x = c) (users d) = Some r"
  shows "auth_login_handler L d req = (d, \<lparr>status = 200, json = JUser (hydrate None r)\<rparr>)"
    and "users_login_handler L d req = (d, \<lparr>status = 200, json = JUser (hydrate None r)\<rparr>)"
  using assms
  by (simp_all add: auth_login_handler_def users_login_handler_def repositories_agree
      findById_cases hydrate_def)

subsection \<open>The signing secret\<close>

lemma startup_without_secret: "e ''JWT_SECRET'' = None \<Longrightarrow> startup L e = Exited 1"
  by (simp add: startup_def validateEnv_def str_def Let_def)

lemma generateToken_without_secret:
  "e ''JWT_SECRET'' = None \<or> e ''JWT_SECRET'' = Some [] \<Longrightarrow>
   generateToken L e now u =
     jwt_sign L ''your-secret-key'' \<lparr>payload_id = u, iat = now, exp = now + 86400\<rparr>"
  by (auto simp: generateToken_def js_or_def)

lemma generateToken_with_secret:
  "e ''JWT_SECRET'' = Some s \<Longrightarrow> s \<noteq> [] \<Longrightarrow>
   generateToken L e now u = jwt_sign L s \<lparr>payload_id = u, iat = now, exp = now + 86400\<rparr>"
  by (auto simp: generateToken_def js_or_def)

subsection \<open>Which handlers send a user object with a password\<close>

text \<open>
  The other five handlers never send a user object that has a \<^verbatim>\<open>password\<close> property.
  (The 400 of a failed validation echoes the rejected values, the password among them;
  that is not a field of a user record.)
\<close>

lemma other_handlers_strip_password:
  "\<not> has_password (json (snd (post_auth_register L e d salt uuid now req)))"
  "\<not> has_password (json (snd (post_auth_token L e d now req)))"
  "\<not> has_password (json (snd (get_auth_login L e d now req)))"
  "\<not> has_password (json (snd (get_users_login L e d now req)))"
  "\<not> has_password (json (snd (get_users_id L d req)))"
proof -
  show "\<not> has_password (json (snd (post_auth_register L e d salt uuid now req)))"
    by (auto simp: post_auth_register_def register_def Let_def
        split: option.splits sum.splits error.splits prod.splits)
  show "\<not> has_password (json (snd (post_auth_token L e d now req)))"
    by (auto simp: post_auth_token_def login_def Let_def
        split: option.splits sum.splits error.splits prod.splits if_splits)
  show "\<not> has_password (json (snd (get_auth_login L e d now req)))"
    by (auto simp: get_auth_login_def route_def auth_login_handler_def
        split: option.splits sum.splits error.splits mw_result.splits dest: auth_Respond)
  show "\<not> has_password (json (snd (get_users_login L e d now req)))"
    by (auto simp: get_users_login_def route_def users_login_handler_def
        split: option.splits sum.splits error.splits mw_result.splits dest: auth_Respond)
  show "\<not> has_password (json (snd (get_users_id L d req)))"
    by (auto simp: get_users_id_def findById_cases hydrate_def
        split: option.splits sum.splits error.splits)
qed

lemma auth_token_for:
  "auth toy test_env 1 (bearer (token_for U)) = Next (authenticated U)"
  using auth_issued [OF toy_jwt_ok, of 1 0 test_env U]
  by (simp add: token_for_def authenticated_def)

lemma alice_db_facts:
  "failure alice_db = None" "users alice_db = [alice_row]" "alice_row \<in> set (users alice_db)"
  "row_id alice_row = alice_id" "row_email alice_row = ''a@x.com''"
  "row_password alice_row = ''$2b$10$secret1''"
  "find (\<lambda>x. row_id x = alice_id) (users alice_db) = Some alice_row"
  "find (\<lambda>x. row_id x = other_id) (users alice_db) = None"
  "find (\<lambda>x. row_email x = ''a@x.com'') (users alice_db) = Some alice_row"
  "hydrate None alice_row =
     \<lparr>id' = alice_id, username = ''alice'', email = ''a@x.com'', password = None,
      createdAt = 0, updatedAt = 0\<rparr>"
  by (simp_all add: alice_db_def alice_row_def hydrate_def toy_uuids)

subsection \<open>The scenario of the specification, run on the model\<close>

text \<open>
  Register alice, log in with a wrong and with the right password, then ask for the
  current user with the token: 201, 401, 200 and 200, no user object with a password.
\<close>

lemma scenario_register:
  "post_auth_register toy test_env empty_db ''salt'' alice_id 0
     \<lparr>authorization = None, body = alice, params_id = []\<rparr>
   = (alice_db,
      \<lparr>status = 201,
       json = JUserToken \<lparr>id' = alice_id, username = ''alice'', email = ''a@x.com'',
                           password = None, createdAt = 0, updatedAt = 0\<rparr>
                         (generateToken toy test_env 0 alice_id)\<rparr>)"
  by (simp add: post_auth_register_def validate_register_def check_def to_string_def alice_def
      register_def bcrypt_hash_js_def UserRepository_create_def save_def empty_db_def
      alice_db_def alice_row_def toy_def toy_hash_def)

lemma scenario_login:
  "post_auth_token toy test_env alice_db 1 (credentials ''a@x.com'' (JString ''wrong''))
     = (alice_db, \<lparr>status = 401, json = JError ''Invalid login credentials''\<rparr>)"
  "post_auth_token toy test_env alice_db 1 (credentials ''a@x.com'' (JString ''secret1''))
     = (alice_db,
        \<lparr>status = 200,
         json = JUserToken \<lparr>id' = alice_id, username = ''alice'', email = ''a@x.com'',
                             password = None, createdAt = 0, updatedAt = 0\<rparr>
                           (generateToken toy test_env 1 alice_id)\<rparr>)"
proof -
  have m: "isEmail toy ''a@x.com''" by (simp add: toy_def)
  have c: "\<not> bcrypt_compare toy ''wrong'' ''$2b$10$secret1''"
    "bcrypt_compare toy ''secret1'' ''$2b$10$secret1''"
    by (simp_all add: toy_def toy_compare_def)
  show "post_auth_token toy test_env alice_db 1 (credentials ''a@x.com'' (JString ''wrong''))
     = (alice_db, \<lparr>status = 401, json = JError ''Invalid login credentials''\<rparr>)"
    unfolding post_auth_token_valid [OF m]
      login_registered [OF alice_db_facts(1) alice_db_facts(9)] alice_db_facts
    using c by simp
  show "post_auth_token toy test_env alice_db 1 (credentials ''a@x.com'' (JString ''secret1''))
     = (alice_db,
        \<lparr>status = 200,
         json = JUserToken \<lparr>id' = alice_id, username = ''alice'', email = ''a@x.com'',
                             password = None, createdAt = 0, updatedAt = 0\<rparr>
                           (generateToken toy test_env 1 alice_id)\<rparr>)"
    unfolding post_auth_token_valid [OF m]
      login_registered [OF alice_db_facts(1) alice_db_facts(9)] alice_db_facts
    using c by simp
qed

lemma scenario_me:
  "get_auth_login toy test_env alice_db 1 (bearer (token_for alice_id))
     = (alice_db,
        \<lparr>status = 200,
         json = JUser \<lparr>id' = alice_id, username = ''alice'', email = ''a@x.com'',
                        password = None, createdAt = 0, updatedAt = 0\<rparr>\<rparr>)"
proof -
  have u: "pg_uuid toy (payload_id (req_user (authenticated alice_id))) = Some alice_id"
    by (simp add: authenticated_def toy_uuids)
  show ?thesis
    unfolding get_auth_login_def route_def auth_token_for
    using handlers_found(1) [OF alice_db_facts(1) u alice_db_facts(7)]
    by (simp add: alice_db_facts)
qed

section \<open>The claims\<close>

subsection \<open>C1: the signing secret and its fallback\<close>

text \<open>
  Claim C1 at a failing input. With \<^verbatim>\<open>JWT_SECRET\<close> set to the empty string the
  environment passes \<^verbatim>\<open>validateEnv\<close> and the process starts; \<^verbatim>\<open>generateToken\<close> then signs
  with the hard-coded \<^verbatim>\<open>'your-secret-key'\<close>, and the middleware accepts a token that
  anyone has signed with that key. (An undefined \<^verbatim>\<open>JWT_SECRET\<close> does stop the startup,
  \<open>startup_without_secret\<close>; the two functions themselves fall back to the default
  for it as well, \<open>generateToken_without_secret\<close>.)
\<close>

theorem empty_secret_falls_back:
  "startup toy (test_env(''JWT_SECRET'' \<mapsto> [])) = Running
   \<and> generateToken toy (test_env(''JWT_SECRET'' \<mapsto> [])) 0 ''u1''
       = jwt_sign toy ''your-secret-key'' \<lparr>payload_id = ''u1'', iat = 0, exp = 86400\<rparr>
   \<and> auth toy (test_env(''JWT_SECRET'' \<mapsto> [])) 1
        (bearer (jwt_sign toy ''your-secret-key'' \<lparr>payload_id = ''u1'', iat = 0, exp = 2\<rparr>))
       = Next \<lparr>authorization =
                  Some (''Bearer '' @ jwt_sign toy ''your-secret-key''
                                        \<lparr>payload_id = ''u1'', iat = 0, exp = 2\<rparr>),
               body = no_body, params_id = [],
               req_user = \<lparr>payload_id = ''u1'', iat = 0, exp = 2\<rparr>\<rparr>"
proof (intro conjI)
  show "startup toy (test_env(''JWT_SECRET'' \<mapsto> [])) = Running"
    by (simp add: startup_def validateEnv_def str_def str_choices_def str_default_def
        port_default_def test_env_def toy_def toy_port_def)
  show "generateToken toy (test_env(''JWT_SECRET'' \<mapsto> [])) 0 ''u1''
       = jwt_sign toy ''your-secret-key'' \<lparr>payload_id = ''u1'', iat = 0, exp = 86400\<rparr>"
    by (simp add: generateToken_def js_or_def)
  have v: "jwt_verify toy ''your-secret-key'' 1
             (jwt_sign toy ''your-secret-key'' \<lparr>payload_id = ''u1'', iat = 0, exp = 2\<rparr>)
           = Some \<lparr>payload_id = ''u1'', iat = 0, exp = 2\<rparr>"
    using toy_jwt_ok by (simp add: jwt_ok_def)
  have n: "jwt_sign toy ''your-secret-key'' \<lparr>payload_id = ''u1'', iat = 0, exp = 2\<rparr> \<noteq> []"
    using toy_jwt_ok by (simp add: jwt_ok_def)
  show "auth toy (test_env(''JWT_SECRET'' \<mapsto> [])) 1
        (bearer (jwt_sign toy ''your-secret-key'' \<lparr>payload_id = ''u1'', iat = 0, exp = 2\<rparr>))
       = Next \<lparr>authorization =
                  Some (''Bearer '' @ jwt_sign toy ''your-secret-key''
                                        \<lparr>payload_id = ''u1'', iat = 0, exp = 2\<rparr>),
               body = no_body, params_id = [],
               req_user = \<lparr>payload_id = ''u1'', iat = 0, exp = 2\<rparr>\<rparr>"
    using v n by (simp add: auth_cases bearer_def replace_Bearer js_or_def)
qed

subsection \<open>C2: a handler that sends the password\<close>

lemma post_users_alice:
  "post_users empty_db alice_id 0 \<lparr>authorization = None, body = alice, params_id = []\<rparr>
     = (\<lparr>users = [\<lparr>row_id = alice_id, row_username = ''alice'', row_email = ''a@x.com'',
                    row_password = ''secret1'', row_createdAt = 0, row_updatedAt = 0\<rparr>],
         failure = None\<rparr>,
        \<lparr>status = 201,
         json = JUser \<lparr>id' = alice_id, username = ''alice'', email = ''a@x.com'',
                      password = Some (JString ''secret1''), createdAt = 0, updatedAt = 0\<rparr>\<rparr>)"
  by (simp add: post_users_def UserRepository_create_def save_def empty_db_def alice_def)

text \<open>
  Claim C2 at a failing input. \<^verbatim>\<open>POST /api/users\<close> with alice's body on the empty table
  answers 201 with the created user as \<^verbatim>\<open>save\<close> returned it: the JSON has the key
  \<^verbatim>\<open>password\<close>, with the password that was sent. The other five handlers never send a
  user object with one (\<open>other_handlers_strip_password\<close>).
\<close>

theorem post_users_sends_password:
  "has_password (json (snd (post_users empty_db alice_id 0
                              \<lparr>authorization = None, body = alice, params_id = []\<rparr>)))
   \<and> json (snd (post_users empty_db alice_id 0
                   \<lparr>authorization = None, body = alice, params_id = []\<rparr>))
       = JUser \<lparr>id' = alice_id, username = ''alice'', email = ''a@x.com'',
                password = Some (JString ''secret1''), createdAt = 0, updatedAt = 0\<rparr>
   \<and> status (snd (post_users empty_db alice_id 0
                     \<lparr>authorization = None, body = alice, params_id = []\<rparr>)) = 201"
  by (simp add: post_users_alice)

subsection \<open>C3: the two login failures\<close>

text \<open>
  Claim C3 at a failing input. The route checks only that a password exists, so
  \<^verbatim>\<open>{ email, password: null }\<close> reaches \<^verbatim>\<open>login\<close>. For an address that no user has the
  answer is 401 \<^verbatim>\<open>Invalid login credentials\<close>; for alice's address the user is found,
  \<^verbatim>\<open>bcrypt.compare\<close> throws on the null, and the answer is 401 with bcrypt's message:
  the caller can tell a registered address from an unregistered one. A number in
  place of the password does the same. (For passwords that are strings the two
  answers are equal, \<open>login_indistinguishable_strings\<close>.)
\<close>

theorem null_password_tells_registered:
  "post_auth_token toy test_env alice_db 1 (credentials ''nobody@x.com'' JNull)
     = (alice_db, \<lparr>status = 401, json = JError ''Invalid login credentials''\<rparr>)
   \<and> post_auth_token toy test_env alice_db 1 (credentials ''a@x.com'' JNull)
     = (alice_db, \<lparr>status = 401, json = JError ''data and hash arguments required''\<rparr>)
   \<and> post_auth_token toy test_env alice_db 1 (credentials ''nobody@x.com'' (JNumber ''123456''))
     = (alice_db, \<lparr>status = 401, json = JError ''Invalid login credentials''\<rparr>)
   \<and> post_auth_token toy test_env alice_db 1 (credentials ''a@x.com'' (JNumber ''123456''))
     = (alice_db, \<lparr>status = 401, json = JError ''data and hash must be strings''\<rparr>)"
proof -
  have m: "isEmail toy ''nobody@x.com''" "isEmail toy ''a@x.com''"
    by (simp_all add: toy_def)
  have n: "''nobody@x.com'' \<notin> row_email ` set (users alice_db)"
    by (simp add: alice_db_facts)
  note f = alice_db_facts(1) alice_db_facts(9)
  have l: "login toy test_env alice_db 1 ''a@x.com'' (JNumber ''123456'')
             = Inl (Error ''data and hash must be strings'')"
    by (rule login_registered_not_string [OF f, of _ "''123456''" True]) simp
  show ?thesis
    unfolding post_auth_token_valid [OF m(1)] post_auth_token_valid [OF m(2)]
      login_unregistered [OF alice_db_facts(1) n]
      login_registered_null [OF f] l
    by simp
qed

subsection \<open>C4: a token resolves to its user, a tampered token is rejected\<close>

text \<open>
  Claim C4. Let \<open>r\<close> be a stored user and \<open>U\<close> its id. The token that
  \<^verbatim>\<open>generateToken\<close> issues for \<open>U\<close>, sent as \<^verbatim>\<open>Authorization: Bearer <token>\<close> within the
  24 hours of its validity, is verified by the middleware, and both protected routes
  answer 200 with the record of \<open>r\<close> itself, without the password. A token whose
  signature does not match the server's secret is rejected: both routes answer 401.
  The jsonwebtoken contract \<open>jwt_ok\<close> is assumed of the library, and the table is
  under its constraints (unique columns, uuid keys).
\<close>

theorem token_roundtrip:
  assumes "jwt_ok L"
  shows "(failure d = None \<and> unique_columns d \<and> uuid_keys L d \<and> r \<in> set (users d)
            \<and> U = row_id r \<and> now' < now + 86400 \<longrightarrow>
           id' (hydrate None r) = U \<and> password (hydrate None r) = None \<and>
           get_auth_login L e d now' (bearer (generateToken L e now U))
             = (d, \<lparr>status = 200, json = JUser (hydrate None r)\<rparr>) \<and>
           get_users_login L e d now' (bearer (generateToken L e now U))
             = (d, \<lparr>status = 200, json = JUser (hydrate None r)\<rparr>))
       \<and> (\<not> jwt_signature_matches L (js_or (e ''JWT_SECRET'') ''your-secret-key'') t \<longrightarrow>
           get_auth_login L e d now' (bearer t)
             = (d, \<lparr>status = 401, json = JError ''Please authenticate''\<rparr>) \<and>
           get_users_login L e d now' (bearer t)
             = (d, \<lparr>status = 401, json = JError ''Please authenticate''\<rparr>))"
proof (intro conjI impI)
  assume h: "failure d = None \<and> unique_columns d \<and> uuid_keys L d \<and> r \<in> set (users d)
               \<and> U = row_id r \<and> now' < now + 86400"
  show "id' (hydrate None r) = U" using h by (simp add: hydrate_def)
  show "password (hydrate None r) = None" by (simp add: hydrate_def)
  have a: "auth L e now' (bearer (generateToken L e now U)) =
             Next \<lparr>authorization = Some (''Bearer '' @ generateToken L e now U),
                   body = no_body, params_id = [],
                   req_user = \<lparr>payload_id = U, iat = now, exp = now + 86400\<rparr>\<rparr>"
    using auth_issued assms h by blast
  have f: "find (\<lambda>x. row_id x = U) (users d) = Some r"
    using h by (simp add: unique_columns_def find_distinct)
  have u: "pg_uuid L U = Some U" using h by (simp add: uuid_keys_def)
  show "get_auth_login L e d now' (bearer (generateToken L e now U))
          = (d, \<lparr>status = 200, json = JUser (hydrate None r)\<rparr>)"
    unfolding get_auth_login_def route_def a using h f u by (simp add: handlers_found)
  show "get_users_login L e d now' (bearer (generateToken L e now U))
          = (d, \<lparr>status = 200, json = JUser (hydrate None r)\<rparr>)"
    unfolding get_users_login_def route_def a using h f u by (simp add: handlers_found)
next
  assume "\<not> jwt_signature_matches L (js_or (e ''JWT_SECRET'') ''your-secret-key'') t"
  then have a: "auth L e now' (bearer t) =
                  Respond \<lparr>status = 401, json = JError ''Please authenticate''\<rparr>"
    using auth_rejected assms by blast
  show "get_auth_login L e d now' (bearer t)
          = (d, \<lparr>status = 401, json = JError ''Please authenticate''\<rparr>)"
    unfolding get_auth_login_def route_def a by simp
  show "get_users_login L e d now' (bearer t)
          = (d, \<lparr>status = 401, json = JError ''Please authenticate''\<rparr>)"
    unfolding get_users_login_def route_def a by simp
qed

theorem token_roundtrip_witness:
  "jwt_ok toy \<and> failure alice_db = None \<and> unique_columns alice_db \<and> uuid_keys toy alice_db
   \<and> alice_row \<in> set (users alice_db) \<and> alice_id = row_id alice_row \<and> (1::nat) < 0 + 86400
   \<and> get_auth_login toy test_env alice_db 1 (bearer (generateToken toy test_env 0 alice_id))
       = (alice_db, \<lparr>status = 200, json = JUser (hydrate None alice_row)\<rparr>)
   \<and> \<not> jwt_signature_matches toy (js_or (test_env ''JWT_SECRET'') ''your-secret-key'')
         (jwt_sign toy ''attacker-key'' \<lparr>payload_id = alice_id, iat = 0, exp = 86400\<rparr>)
   \<and> get_auth_login toy test_env alice_db 1
        (bearer (jwt_sign toy ''attacker-key'' \<lparr>payload_id = alice_id, iat = 0, exp = 86400\<rparr>))
       = (alice_db, \<lparr>status = 401, json = JError ''Please authenticate''\<rparr>)"
proof -
  have h: "failure alice_db = None" "alice_row \<in> set (users alice_db)"
    "alice_id = row_id alice_row"
    by (simp_all add: alice_db_facts)
  have n: "\<not> jwt_signature_matches toy (js_or (test_env ''JWT_SECRET'') ''your-secret-key'')
         (jwt_sign toy ''attacker-key'' \<lparr>payload_id = alice_id, iat = 0, exp = 86400\<rparr>)"
    unfolding test_secret by (rule toy_other_secret) simp
  have t: "(1::nat) < 0 + 86400" by simp
  show ?thesis
    using token_roundtrip [OF toy_jwt_ok, of alice_db alice_row alice_id 1 0 test_env
        "jwt_sign toy ''attacker-key'' \<lparr>payload_id = alice_id, iat = 0, exp = 86400\<rparr>"]
      h n t alice_db_unique alice_db_uuid_keys toy_jwt_ok
    by blast
qed

subsection \<open>C5: register, then log in\<close>

text \<open>
  Claim C5. A registration input is accepted by the table when its username and
  email are not yet taken (and the database is up and draws an unused key). For every
  such input \<^verbatim>\<open>register\<close> succeeds: it stores the row with the bcrypt hash and returns
  the user without a password property, with a token. A later \<^verbatim>\<open>login\<close> with the same
  email and password succeeds and returns that same user object and a token. The
  bcrypt contract \<open>bcrypt_ok\<close> is assumed of the library.
\<close>

theorem register_then_login:
  assumes "bcrypt_ok L" and "failure d = None"
    and "uuid \<notin> row_id ` set (users d)"
    and "un \<notin> row_username ` set (users d)"
    and "em \<notin> row_email ` set (users d)"
  shows "\<exists>d' u. register L e d salt uuid now
                   \<lparr>d_username = un, d_email = em, d_password = JString p\<rparr>
                 = Inr (d', u, generateToken L e now uuid)
           \<and> users d' = users d @
                [\<lparr>row_id = uuid, row_username = un, row_email = em,
                  row_password = bcrypt_hash L salt p,
                  row_createdAt = now, row_updatedAt = now\<rparr>]
           \<and> u = \<lparr>id' = uuid, username = un, email = em, password = None,
                  createdAt = now, updatedAt = now\<rparr>
           \<and> \<not> has_password (JUserToken u (generateToken L e now uuid))
           \<and> login L e d' now' em (JString p) = Inr (u, generateToken L e now' uuid)"
proof -
  let ?h = "bcrypt_hash L salt p"
  let ?r = "\<lparr>row_id = uuid, row_username = un, row_email = em,
             row_password = ?h, row_createdAt = now, row_updatedAt = now\<rparr>"
  let ?d' = "d\<lparr>users := users d @ [?r]\<rparr>"
  let ?u = "\<lparr>id' = uuid, username = un, email = em, password = None,
            createdAt = now, updatedAt = now\<rparr>"
  have reg: "register L e d salt uuid now \<lparr>d_username = un, d_email = em, d_password = JString p\<rparr>
               = Inr (?d', ?u, generateToken L e now uuid)"
    using assms
    by (simp add: register_def bcrypt_hash_js_def UserRepository_create_def save_fresh)
  have f: "find (\<lambda>r. row_email r = em) (users ?d') = Some ?r"
    using assms(5) by (simp add: find_append_new)
  have c: "bcrypt_compare L p ?h"
    using assms(1) by (simp add: bcrypt_ok_def)
  have "login L e ?d' now' em (JString p) = Inr (?u, generateToken L e now' uuid)"
    using login_registered [OF _ f, of L e now' p] assms(2) c
    by (simp add: hydrate_def)
  with reg show ?thesis by simp
qed

theorem register_then_login_witness:
  "bcrypt_ok toy \<and> failure empty_db = None
   \<and> alice_id \<notin> row_id ` set (users empty_db)
   \<and> ''alice'' \<notin> row_username ` set (users empty_db)
   \<and> ''a@x.com'' \<notin> row_email ` set (users empty_db)
   \<and> (\<exists>d' u. register toy test_env empty_db ''salt'' alice_id 0
                 \<lparr>d_username = ''alice'', d_email = ''a@x.com'', d_password = JString ''secret1''\<rparr>
               = Inr (d', u, generateToken toy test_env 0 alice_id)
            \<and> password u = None
            \<and> login toy test_env d' 9 ''a@x.com'' (JString ''secret1'')
                = Inr (u, generateToken toy test_env 9 alice_id))"
proof -
  let ?ud = "\<lparr>d_username = ''alice'', d_email = ''a@x.com'', d_password = JString ''secret1''\<rparr>"
  have h: "failure empty_db = None" "alice_id \<notin> row_id ` set (users empty_db)"
    "''alice'' \<notin> row_username ` set (users empty_db)"
    "''a@x.com'' \<notin> row_email ` set (users empty_db)"
    by (simp_all add: empty_db_def)
  from register_then_login [OF toy_bcrypt_ok h, of test_env "''salt''" 0 "''secret1''" 9]
  obtain d' u where
    "register toy test_env empty_db ''salt'' alice_id 0 ?ud
       = Inr (d', u, generateToken toy test_env 0 alice_id)"
    "u = \<lparr>id' = alice_id, username = ''alice'', email = ''a@x.com'', password = None,
          createdAt = 0, updatedAt = 0\<rparr>"
    "login toy test_env d' 9 ''a@x.com'' (JString ''secret1'')
       = Inr (u, generateToken toy test_env 9 alice_id)"
    by blast
  then have "\<exists>d' u. register toy test_env empty_db ''salt'' alice_id 0 ?ud
               = Inr (d', u, generateToken toy test_env 0 alice_id)
            \<and> password u = None
            \<and> login toy test_env d' 9 ''a@x.com'' (JString ''secret1'')
                = Inr (u, generateToken toy test_env 9 alice_id)"
    by (intro exI [of _ d'] exI [of _ u]) simp
  with h toy_bcrypt_ok show ?thesis by blast
qed

subsection \<open>C6: a short password is rejected before anything is stored\<close>

text \<open>
  Claim C6. When the password of a registration request has fewer than 6 characters
  (an absent password counts as the empty string), \<^verbatim>\<open>POST /api/auth/register\<close> answers
  400 with \<^verbatim>\<open>{ errors: [...] }\<close>, a list of field errors that holds the one for the field
  \<^verbatim>\<open>password\<close>, and the table is the one it was before.
\<close>

theorem short_password_rejected:
  assumes "length (to_string (b_password (body req))) < 6"
  shows "\<exists>es. post_auth_register L e d salt uuid now req =
                 (d, \<lparr>status = 400, json = JErrors es\<rparr>)
            \<and> \<lparr>f_path = ''password'', f_value = b_password (body req),
                f_msg = ''Invalid value''\<rparr> \<in> set es"
  using assms
  by (simp add: post_auth_register_def validate_register_def check_def Let_def)

theorem short_password_rejected_witness:
  "length (to_string (b_password (body \<lparr>authorization = None,
        body = \<lparr>b_username = Some ''alice'', b_email = Some ''a@x.com'',
                b_password = Some (JString ''abc'')\<rparr>,
        params_id = []\<rparr>))) < 6
   \<and> post_auth_register toy test_env empty_db ''salt'' alice_id 0
        \<lparr>authorization = None,
         body = \<lparr>b_username = Some ''alice'', b_email = Some ''a@x.com'',
                 b_password = Some (JString ''abc'')\<rparr>,
         params_id = []\<rparr>
       = (empty_db,
          \<lparr>status = 400,
           json = JErrors [\<lparr>f_path = ''password'', f_value = Some (JString ''abc''),
                            f_msg = ''Invalid value''\<rparr>]\<rparr>)"
proof -
  let ?req = "\<lparr>authorization = None,
        body = \<lparr>b_username = Some ''alice'', b_email = Some ''a@x.com'',
                b_password = Some (JString ''abc'')\<rparr>,
        params_id = []\<rparr>"
  have h: "length (to_string (b_password (body ?req))) < 6"
    by (simp add: to_string_def)
  from short_password_rejected [OF h, of toy test_env empty_db "''salt''" alice_id 0]
  obtain es where "post_auth_register toy test_env empty_db ''salt'' alice_id 0 ?req =
                 (empty_db, \<lparr>status = 400, json = JErrors es\<rparr>)" by blast
  moreover have "validate_register toy (body ?req) =
       [\<lparr>f_path = ''password'', f_value = Some (JString ''abc''), f_msg = ''Invalid value''\<rparr>]"
    by (simp add: validate_register_def check_def to_string_def toy_def)
  ultimately show ?thesis using h
    by (auto simp: post_auth_register_def Let_def)
qed

subsection \<open>C7: the authentication middleware\<close>

text \<open>
  Claim C7. On a protected route, when the Authorization header is absent, or the token
  extracted from it is empty, or \<^verbatim>\<open>jwt.verify\<close> rejects the token, the middleware sends 401
  \<^verbatim>\<open>{ error: 'Please authenticate' }\<close> and the route's answer is that response whatever the
  handler is, with the table untouched: the handler is not invoked. When the token
  verifies, the decoded payload (the user id) is attached to the request and the handler
  runs on that request.
\<close>

theorem auth_middleware:
  fixes handler :: "db \<Rightarrow> AuthRequest \<Rightarrow> db \<times> response"
  shows "((authorization req = None
           \<or> (\<exists>h. authorization req = Some h \<and> replace ''Bearer '' [] h = [])
           \<or> (\<exists>h. authorization req = Some h \<and>
                  jwt_verify L (js_or (e ''JWT_SECRET'') ''your-secret-key'') now
                    (replace ''Bearer '' [] h) = None))
            \<longrightarrow> auth L e now req = Respond \<lparr>status = 401, json = JError ''Please authenticate''\<rparr>
              \<and> route (auth L e now) handler d req =
                  (d, \<lparr>status = 401, json = JError ''Please authenticate''\<rparr>))
       \<and> (\<forall>h decoded.
            authorization req = Some h \<and> replace ''Bearer '' [] h \<noteq> [] \<and>
            jwt_verify L (js_or (e ''JWT_SECRET'') ''your-secret-key'') now
              (replace ''Bearer '' [] h) = Some decoded
            \<longrightarrow> auth L e now req =
                  Next \<lparr>authorization = authorization req, body = body req,
                        params_id = params_id req, req_user = decoded\<rparr>
              \<and> payload_id (req_user \<lparr>authorization = authorization req, body = body req,
                        params_id = params_id req, req_user = decoded\<rparr>) = payload_id decoded
              \<and> route (auth L e now) handler d req =
                  handler d \<lparr>authorization = authorization req, body = body req,
                             params_id = params_id req, req_user = decoded\<rparr>)"
  by (auto simp: auth_cases route_def split: option.splits)

theorem auth_middleware_witness:
  "authorization \<lparr>authorization = None, body = no_body, params_id = []\<rparr> = None
   \<and> route (auth toy test_env 1) (auth_login_handler toy) alice_db
        \<lparr>authorization = None, body = no_body, params_id = []\<rparr>
       = (alice_db, \<lparr>status = 401, json = JError ''Please authenticate''\<rparr>)
   \<and> authorization (bearer (generateToken toy test_env 0 alice_id))
       = Some (''Bearer '' @ generateToken toy test_env 0 alice_id)
   \<and> replace ''Bearer '' [] (''Bearer '' @ generateToken toy test_env 0 alice_id) \<noteq> []
   \<and> jwt_verify toy (js_or (test_env ''JWT_SECRET'') ''your-secret-key'') 1
        (replace ''Bearer '' [] (''Bearer '' @ generateToken toy test_env 0 alice_id))
       = Some \<lparr>payload_id = alice_id, iat = 0, exp = 86400\<rparr>
   \<and> route (auth toy test_env 1) (auth_login_handler toy) alice_db
        (bearer (generateToken toy test_env 0 alice_id))
       = auth_login_handler toy alice_db
           \<lparr>authorization = Some (''Bearer '' @ generateToken toy test_env 0 alice_id),
            body = no_body, params_id = [],
            req_user = \<lparr>payload_id = alice_id, iat = 0, exp = 86400\<rparr>\<rparr>"
proof -
  let ?t = "generateToken toy test_env 0 alice_id"
  let ?c = "\<lparr>payload_id = alice_id, iat = 0, exp = 86400\<rparr>"
  let ?s = "js_or (test_env ''JWT_SECRET'') ''your-secret-key''"
  have t: "?t = jwt_sign toy ?s ?c"
    by (simp add: generateToken_def)
  have ne: "replace ''Bearer '' [] (''Bearer '' @ ?t) \<noteq> []"
    unfolding replace_Bearer t using toy_jwt_ok by (simp add: jwt_ok_def)
  have v: "jwt_verify toy ?s 1 (replace ''Bearer '' [] (''Bearer '' @ ?t)) = Some ?c"
    unfolding replace_Bearer t using toy_jwt_ok by (simp add: jwt_ok_def)
  have a: "authorization (bearer ?t) = Some (''Bearer '' @ ?t)"
    "body (bearer ?t) = no_body" "params_id (bearer ?t) = []"
    by (simp_all add: bearer_def)
  have r1: "route (auth toy test_env 1) (auth_login_handler toy) alice_db
        \<lparr>authorization = None, body = no_body, params_id = []\<rparr>
       = (alice_db, \<lparr>status = 401, json = JError ''Please authenticate''\<rparr>)"
    using auth_middleware [of "\<lparr>authorization = None, body = no_body, params_id = []\<rparr>"
        toy test_env 1 "auth_login_handler toy" alice_db]
    by simp
  have r2: "route (auth toy test_env 1) (auth_login_handler toy) alice_db (bearer ?t)
       = auth_login_handler toy alice_db
           \<lparr>authorization = Some (''Bearer '' @ ?t), body = no_body, params_id = [],
            req_user = ?c\<rparr>"
    using auth_middleware [of "bearer ?t" toy test_env 1 "auth_login_handler toy" alice_db]
      a ne v by metis
  show ?thesis using r1 r2 a ne v by simp
qed

subsection \<open>C8: the two protected login routes\<close>

lemma broken_db_responses:
  "get_auth_login toy test_env broken_db 1 (bearer (generateToken toy test_env 0 ''u1''))
     = (broken_db, \<lparr>status = 500, json = JError ''Connection terminated''\<rparr>)"
  "get_users_login toy test_env broken_db 1 (bearer (generateToken toy test_env 0 ''u1''))
     = (broken_db, \<lparr>status = 400, json = JError ''Connection terminated''\<rparr>)"
proof -
  have a: "auth toy test_env 1 (bearer (generateToken toy test_env 0 ''u1'')) =
             Next (authenticated ''u1'')"
    using auth_token_for [of "''u1''"] by (simp add: token_for_def)
  have f: "failure broken_db = Some ''Connection terminated''"
    by (simp add: broken_db_def)
  show "get_auth_login toy test_env broken_db 1 (bearer (generateToken toy test_env 0 ''u1''))
     = (broken_db, \<lparr>status = 500, json = JError ''Connection terminated''\<rparr>)"
    unfolding get_auth_login_def route_def a by (simp add: handlers_failure [OF f])
  show "get_users_login toy test_env broken_db 1 (bearer (generateToken toy test_env 0 ''u1''))
     = (broken_db, \<lparr>status = 400, json = JError ''Connection terminated''\<rparr>)"
    unfolding get_users_login_def route_def a by (simp add: handlers_failure [OF f])
qed

text \<open>
  Claim C8, as stated, fails: with a valid token and a database that rejects the
  query, \<^verbatim>\<open>GET /api/auth/login\<close> answers 500 and \<^verbatim>\<open>GET /api/users/login\<close> answers 400.
\<close>

theorem login_routes_differ:
  "get_auth_login toy test_env broken_db 1 (bearer (generateToken toy test_env 0 ''u1''))
     \<noteq> get_users_login toy test_env broken_db 1 (bearer (generateToken toy test_env 0 ''u1''))
   \<and> status (snd (get_auth_login toy test_env broken_db 1
                     (bearer (generateToken toy test_env 0 ''u1'')))) = 500
   \<and> status (snd (get_users_login toy test_env broken_db 1
                     (bearer (generateToken toy test_env 0 ''u1'')))) = 400"
  unfolding broken_db_responses by simp

text \<open>
  Claim C8, amended. Both routes leave the table as it is, and for every request:
  \<^item> when the middleware rejects the request, both answer its 401;
  \<^item> when the user is found, both answer 200 with the same record, without password;
  \<^item> when no user has the id, both answer 404 \<^verbatim>\<open>User not found\<close>;
  \<^item> when the lookup raises an error (the data source fails, or the id of the token is
    not a uuid), both send \<^verbatim>\<open>{ error: message }\<close> with the same message, but
    \<^verbatim>\<open>GET /api/auth/login\<close> with status 500 and \<^verbatim>\<open>GET /api/users/login\<close> with status 400.
\<close>

theorem login_routes_compared:
  "(auth L e now req = Respond res \<longrightarrow>
      res = \<lparr>status = 401, json = JError ''Please authenticate''\<rparr> \<and>
      get_auth_login L e d now req = (d, res) \<and> get_users_login L e d now req = (d, res))
   \<and> (auth L e now req = Next areq \<longrightarrow>
        (failure d = Some m \<longrightarrow>
           get_auth_login L e d now req = (d, \<lparr>status = 500, json = JError m\<rparr>) \<and>
           get_users_login L e d now req = (d, \<lparr>status = 400, json = JError m\<rparr>))
      \<and> (failure d = None \<and> pg_uuid L (payload_id (req_user areq)) = None \<longrightarrow>
           get_auth_login L e d now req =
             (d, \<lparr>status = 500, json = JError ''invalid input syntax for type uuid''\<rparr>) \<and>
           get_users_login L e d now req =
             (d, \<lparr>status = 400, json = JError ''invalid input syntax for type uuid''\<rparr>))
      \<and> (failure d = None \<and> pg_uuid L (payload_id (req_user areq)) = Some c
            \<and> find (\<lambda>x. row_id x = c) (users d) = None \<longrightarrow>
           get_auth_login L e d now req =
             (d, \<lparr>status = 404, json = JError ''User not found''\<rparr>) \<and>
           get_users_login L e d now req =
             (d, \<lparr>status = 404, json = JError ''User not found''\<rparr>))
      \<and> (failure d = None \<and> pg_uuid L (payload_id (req_user areq)) = Some c
            \<and> find (\<lambda>x. row_id x = c) (users d) = Some r \<longrightarrow>
           password (hydrate None r) = None \<and>
           get_auth_login L e d now req =
             (d, \<lparr>status = 200, json = JUser (hydrate None r)\<rparr>) \<and>
           get_users_login L e d now req =
             (d, \<lparr>status = 200, json = JUser (hydrate None r)\<rparr>)))"
proof (intro conjI impI)
  assume a: "auth L e now req = Respond res"
  show "res = \<lparr>status = 401, json = JError ''Please authenticate''\<rparr>"
    using auth_Respond [OF a] .
  show "get_auth_login L e d now req = (d, res)"
    by (simp add: get_auth_login_def route_def a)
  show "get_users_login L e d now req = (d, res)"
    by (simp add: get_users_login_def route_def a)
next
  assume a: "auth L e now req = Next areq" and f: "failure d = Some m"
  show "get_auth_login L e d now req = (d, \<lparr>status = 500, json = JError m\<rparr>)"
    by (simp add: get_auth_login_def route_def a handlers_failure [OF f])
  show "get_users_login L e d now req = (d, \<lparr>status = 400, json = JError m\<rparr>)"
    by (simp add: get_users_login_def route_def a handlers_failure [OF f])
next
  assume a: "auth L e now req = Next areq"
    and h: "failure d = None \<and> pg_uuid L (payload_id (req_user areq)) = None"
  show "get_auth_login L e d now req =
          (d, \<lparr>status = 500, json = JError ''invalid input syntax for type uuid''\<rparr>)"
    using h by (simp add: get_auth_login_def route_def a handlers_not_uuid)
  show "get_users_login L e d now req =
          (d, \<lparr>status = 400, json = JError ''invalid input syntax for type uuid''\<rparr>)"
    using h by (simp add: get_users_login_def route_def a handlers_not_uuid)
next
  assume a: "auth L e now req = Next areq"
    and h: "failure d = None \<and> pg_uuid L (payload_id (req_user areq)) = Some c
              \<and> find (\<lambda>x. row_id x = c) (users d) = None"
  from h have h': "failure d = None" "pg_uuid L (payload_id (req_user areq)) = Some c"
    "find (\<lambda>x. row_id x = c) (users d) = None" by simp_all
  show "get_auth_login L e d now req = (d, \<lparr>status = 404, json = JError ''User not found''\<rparr>)"
    by (simp add: get_auth_login_def route_def a handlers_absent [OF h'])
  show "get_users_login L e d now req = (d, \<lparr>status = 404, json = JError ''User not found''\<rparr>)"
    by (simp add: get_users_login_def route_def a handlers_absent [OF h'])
next
  assume a: "auth L e now req = Next areq"
    and h: "failure d = None \<and> pg_uuid L (payload_id (req_user areq)) = Some c
              \<and> find (\<lambda>x. row_id x = c) (users d) = Some r"
  from h have h': "failure d = None" "pg_uuid L (payload_id (req_user areq)) = Some c"
    "find (\<lambda>x. row_id x = c) (users d) = Some r" by simp_all
  show "password (hydrate None r) = None" by (simp add: hydrate_def)
  show "get_auth_login L e d now req = (d, \<lparr>status = 200, json = JUser (hydrate None r)\<rparr>)"
    by (simp add: get_auth_login_def route_def a handlers_found [OF h'])
  show "get_users_login L e d now req = (d, \<lparr>status = 200, json = JUser (hydrate None r)\<rparr>)"
    by (simp add: get_users_login_def route_def a handlers_found [OF h'])
qed

theorem login_routes_compared_witness:
  "auth toy test_env 1 \<lparr>authorization = None, body = no_body, params_id = []\<rparr>
     = Respond \<lparr>status = 401, json = JError ''Please authenticate''\<rparr>
   \<and> get_users_login toy test_env alice_db 1
        \<lparr>authorization = None, body = no_body, params_id = []\<rparr>
       = (alice_db, \<lparr>status = 401, json = JError ''Please authenticate''\<rparr>)
   \<and> auth toy test_env 1 (bearer (token_for alice_id)) = Next (authenticated alice_id)
   \<and> failure broken_db = Some ''Connection terminated''
   \<and> get_auth_login toy test_env broken_db 1 (bearer (token_for alice_id))
       = (broken_db, \<lparr>status = 500, json = JError ''Connection terminated''\<rparr>)
   \<and> get_users_login toy test_env broken_db 1 (bearer (token_for alice_id))
       = (broken_db, \<lparr>status = 400, json = JError ''Connection terminated''\<rparr>)
   \<and> auth toy test_env 1 (bearer (token_for ''u1'')) = Next (authenticated ''u1'')
   \<and> failure alice_db = None \<and> pg_uuid toy (payload_id (req_user (authenticated ''u1''))) = None
   \<and> get_auth_login toy test_env alice_db 1 (bearer (token_for ''u1''))
       = (alice_db, \<lparr>status = 500, json = JError ''invalid input syntax for type uuid''\<rparr>)
   \<and> get_users_login toy test_env alice_db 1 (bearer (token_for ''u1''))
       = (alice_db, \<lparr>status = 400, json = JError ''invalid input syntax for type uuid''\<rparr>)
   \<and> auth toy test_env 1 (bearer (token_for other_id)) = Next (authenticated other_id)
   \<and> pg_uuid toy (payload_id (req_user (authenticated other_id))) = Some other_id
   \<and> find (\<lambda>x. row_id x = other_id) (users alice_db) = None
   \<and> get_auth_login toy test_env alice_db 1 (bearer (token_for other_id))
       = (alice_db, \<lparr>status = 404, json = JError ''User not found''\<rparr>)
   \<and> get_users_login toy test_env alice_db 1 (bearer (token_for other_id))
       = (alice_db, \<lparr>status = 404, json = JError ''User not found''\<rparr>)
   \<and> pg_uuid toy (payload_id (req_user (authenticated alice_id))) = Some alice_id
   \<and> find (\<lambda>x. row_id x = alice_id) (users alice_db) = Some alice_row
   \<and> get_auth_login toy test_env alice_db 1 (bearer (token_for alice_id))
       = (alice_db, \<lparr>status = 200, json = JUser (hydrate None alice_row)\<rparr>)
   \<and> get_users_login toy test_env alice_db 1 (bearer (token_for alice_id))
       = (alice_db, \<lparr>status = 200, json = JUser (hydrate None alice_row)\<rparr>)"
proof -
  let ?anon = "\<lparr>authorization = None, body = no_body, params_id = []\<rparr>"
  have r: "auth toy test_env 1 ?anon
             = Respond \<lparr>status = 401, json = JError ''Please authenticate''\<rparr>"
    by (simp add: auth_cases)
  have fb: "failure broken_db = Some ''Connection terminated''"
    by (simp add: broken_db_def)
  have u: "pg_uuid toy (payload_id (req_user (authenticated ''u1''))) = None"
    "pg_uuid toy (payload_id (req_user (authenticated other_id))) = Some other_id"
    "pg_uuid toy (payload_id (req_user (authenticated alice_id))) = Some alice_id"
    by (simp_all add: authenticated_def toy_uuids)
  note fa = alice_db_facts(1)
  note absent = alice_db_facts(8)
  note found = alice_db_facts(7)
  have c0: "get_users_login toy test_env alice_db 1 ?anon
       = (alice_db, \<lparr>status = 401, json = JError ''Please authenticate''\<rparr>)"
    using login_routes_compared [of toy test_env 1 ?anon
        "\<lparr>status = 401, json = JError ''Please authenticate''\<rparr>" alice_db] r
    by blast
  have c1: "get_auth_login toy test_env broken_db 1 (bearer (token_for alice_id))
       = (broken_db, \<lparr>status = 500, json = JError ''Connection terminated''\<rparr>)"
    "get_users_login toy test_env broken_db 1 (bearer (token_for alice_id))
       = (broken_db, \<lparr>status = 400, json = JError ''Connection terminated''\<rparr>)"
    using login_routes_compared [of toy test_env 1 "bearer (token_for alice_id)" _ broken_db
        "authenticated alice_id" "''Connection terminated''"]
      auth_token_for [of alice_id] fb
    by blast+
  have c2: "get_auth_login toy test_env alice_db 1 (bearer (token_for ''u1''))
       = (alice_db, \<lparr>status = 500, json = JError ''invalid input syntax for type uuid''\<rparr>)"
    "get_users_login toy test_env alice_db 1 (bearer (token_for ''u1''))
       = (alice_db, \<lparr>status = 400, json = JError ''invalid input syntax for type uuid''\<rparr>)"
    using login_routes_compared [of toy test_env 1 "bearer (token_for ''u1'')" _ alice_db
        "authenticated ''u1''"]
      auth_token_for [of "''u1''"] fa u(1)
    by blast+
  have c3: "get_auth_login toy test_env alice_db 1 (bearer (token_for other_id))
       = (alice_db, \<lparr>status = 404, json = JError ''User not found''\<rparr>)"
    "get_users_login toy test_env alice_db 1 (bearer (token_for other_id))
       = (alice_db, \<lparr>status = 404, json = JError ''User not found''\<rparr>)"
    using login_routes_compared [of toy test_env 1 "bearer (token_for other_id)" _ alice_db
        "authenticated other_id" _ other_id]
      auth_token_for [of other_id] fa u(2) absent
    by blast+
  have c4: "get_auth_login toy test_env alice_db 1 (bearer (token_for alice_id))
       = (alice_db, \<lparr>status = 200, json = JUser (hydrate None alice_row)\<rparr>)"
    "get_users_login toy test_env alice_db 1 (bearer (token_for alice_id))
       = (alice_db, \<lparr>status = 200, json = JUser (hydrate None alice_row)\<rparr>)"
    using login_routes_compared [of toy test_env 1 "bearer (token_for alice_id)" _ alice_db
        "authenticated alice_id" _ alice_id alice_row]
      auth_token_for [of alice_id] fa u(3) found
    by blast+
  show ?thesis
    using r c0 c1 c2 c3 c4 fb fa u absent found
      auth_token_for [of alice_id] auth_token_for [of "''u1''"] auth_token_for [of other_id]
    by (intro conjI)
qed

subsection \<open>C9: which reads load the password\<close>

text \<open>
  Claim C9. For every stored user \<open>r\<close> (the database up, the table under its
  constraints): \<^verbatim>\<open>findById\<close> returns the record of \<open>r\<close> without the password
  property, \<^verbatim>\<open>findAll\<close> returns every record without it, and \<^verbatim>\<open>findByEmail\<close> returns
  the record of \<open>r\<close> with the stored password hash.
\<close>

theorem reads_and_password:
  assumes "failure d = None" and "unique_columns d" and "uuid_keys L d"
    and "r \<in> set (users d)"
  shows "UserRepository_findById L d (row_id r) = Inr (Some (hydrate None r))
       \<and> password (hydrate None r) = None
       \<and> UserRepository_findAll d = Inr (map (hydrate None) (users d))
       \<and> (\<forall>u \<in> set (map (hydrate None) (users d)). password u = None)
       \<and> UserRepository_findByEmail L d (row_email r) =
            Inr (Some ((hydrate None r)\<lparr>password := Some (JString (row_password r))\<rparr>))"
proof -
  have m: "find (\<lambda>x. row_email x = row_email r) (users d) = Some r"
    using assms(2,4) by (simp add: unique_columns_def find_distinct)
  show ?thesis
    using assms(1) m findById_stored [OF assms]
    by (simp add: findByEmail_cases UserRepository_findAll_def find_all_def hydrate_def)
qed

theorem reads_and_password_witness:
  "failure alice_db = None \<and> unique_columns alice_db \<and> uuid_keys toy alice_db
   \<and> alice_row \<in> set (users alice_db)
   \<and> UserRepository_findById toy alice_db alice_id =
        Inr (Some \<lparr>id' = alice_id, username = ''alice'', email = ''a@x.com'', password = None,
                   createdAt = 0, updatedAt = 0\<rparr>)
   \<and> UserRepository_findAll alice_db =
        Inr [\<lparr>id' = alice_id, username = ''alice'', email = ''a@x.com'', password = None,
              createdAt = 0, updatedAt = 0\<rparr>]
   \<and> UserRepository_findByEmail toy alice_db ''a@x.com'' =
        Inr (Some \<lparr>id' = alice_id, username = ''alice'', email = ''a@x.com'',
                   password = Some (JString ''$2b$10$secret1''), createdAt = 0, updatedAt = 0\<rparr>)"
proof -
  note h = alice_db_facts(1) alice_db_facts(3)
  note t = reads_and_password [OF h(1) alice_db_unique alice_db_uuid_keys h(2),
      unfolded alice_db_facts(2,4,5,6,10)]
  from t have "UserRepository_findById toy alice_db alice_id =
        Inr (Some \<lparr>id' = alice_id, username = ''alice'', email = ''a@x.com'', password = None,
                   createdAt = 0, updatedAt = 0\<rparr>)"
    by blast
  moreover from t have "UserRepository_findAll alice_db =
        Inr [\<lparr>id' = alice_id, username = ''alice'', email = ''a@x.com'', password = None,
              createdAt = 0, updatedAt = 0\<rparr>]"
    by (simp add: alice_db_facts)
  moreover from t have "UserRepository_findByEmail toy alice_db ''a@x.com'' =
        Inr (Some \<lparr>id' = alice_id, username = ''alice'', email = ''a@x.com'',
                   password = Some (JString ''$2b$10$secret1''), createdAt = 0, updatedAt = 0\<rparr>)"
    by simp
  ultimately show ?thesis using h alice_db_unique alice_db_uuid_keys by blast
qed

subsection \<open>C10: \<^verbatim>\<open>POST /api/users\<close> stores the password as sent\<close>

text \<open>
  With no assumption on bcrypt: once a row holds the plaintext \<open>p\<close> as its password,
  the verdict of \<^verbatim>\<open>login\<close> on \<open>p\<close> is that of \<^verbatim>\<open>bcrypt.compare(p, p)\<close>.
\<close>

lemma login_on_plaintext_row:
  assumes "failure d = None" and "find (\<lambda>x. row_email x = em) (users d) = Some r"
    and "row_password r = p"
  shows "login L e d now em (JString p) =
           (if bcrypt_compare L p p
            then Inr (hydrate None r, generateToken L e now (row_id r))
            else Inl (Error ''Invalid login credentials''))"
  using login_registered [OF assms(1,2), of L e now p] assms(3) by simp

text \<open>
  Claim C10. Take a request to \<^verbatim>\<open>POST /api/users\<close> whose body carries a username, an email
  and a password \<open>p\<close>, a string, that the table accepts (username and email not yet
  taken, the database up, an unused key). The handler answers 201 and the table gains
  exactly one row, whose password is \<open>p\<close> itself: nothing on this path calls bcrypt.
  A later login with that email and \<open>p\<close> finds the row and compares \<open>p\<close> with \<open>p\<close> as
  if it were a hash, so it is refused: \<^verbatim>\<open>login\<close> throws \<^verbatim>\<open>Invalid login credentials\<close>
  and \<^verbatim>\<open>POST /api/auth/token\<close> answers 401 with it (400 with the email error, when the
  stored email does not pass \<^verbatim>\<open>isEmail\<close>). Of bcrypt, \<open>bcrypt_no_self_hash\<close> is assumed.
\<close>

theorem post_users_stores_plaintext:
  assumes "bcrypt_no_self_hash L" and "failure d = None"
    and "uuid \<notin> row_id ` set (users d)"
    and "un \<notin> row_username ` set (users d)"
    and "em \<notin> row_email ` set (users d)"
  shows "\<exists>d'. post_users d uuid now
                 \<lparr>authorization = a,
                  body = \<lparr>b_username = Some un, b_email = Some em, b_password = Some (JString p)\<rparr>,
                  params_id = i\<rparr>
               = (d', \<lparr>status = 201,
                      json = JUser \<lparr>id' = uuid, username = un, email = em,
                                    password = Some (JString p),
                                    createdAt = now, updatedAt = now\<rparr>\<rparr>)
           \<and> users d' = users d @
                [\<lparr>row_id = uuid, row_username = un, row_email = em, row_password = p,
                  row_createdAt = now, row_updatedAt = now\<rparr>]
           \<and> login L e d' now' em (JString p) = Inl (Error ''Invalid login credentials'')
           \<and> post_auth_token L e d' now' (credentials em (JString p)) =
               (d', if isEmail L em
                    then \<lparr>status = 401, json = JError ''Invalid login credentials''\<rparr>
                    else \<lparr>status = 400,
                          json = JErrors [\<lparr>f_path = ''email'', f_value = Some (JString em),
                                           f_msg = ''Invalid value''\<rparr>]\<rparr>)"
proof -
  let ?r = "\<lparr>row_id = uuid, row_username = un, row_email = em, row_password = p,
             row_createdAt = now, row_updatedAt = now\<rparr>"
  let ?d' = "d\<lparr>users := users d @ [?r]\<rparr>"
  have s: "post_users d uuid now
                 \<lparr>authorization = a,
                  body = \<lparr>b_username = Some un, b_email = Some em, b_password = Some (JString p)\<rparr>,
                  params_id = i\<rparr>
               = (?d', \<lparr>status = 201,
                      json = JUser \<lparr>id' = uuid, username = un, email = em,
                                    password = Some (JString p),
                                    createdAt = now, updatedAt = now\<rparr>\<rparr>)"
    by (simp add: post_users_def UserRepository_create_def save_fresh [OF assms(2,3,4,5)])
  have fd: "find (\<lambda>x. row_email x = em) (users ?d') = Some ?r"
    using assms(5) by (simp add: find_append_new)
  have fl: "failure ?d' = None" using assms(2) by simp
  have n: "\<not> bcrypt_compare L p p" using assms(1) by (simp add: bcrypt_no_self_hash_def)
  have lg: "login L e ?d' now' em (JString p) = Inl (Error ''Invalid login credentials'')"
    using login_registered [OF fl fd, of L e now' p] n by simp
  have st: "post_auth_token L e ?d' now' (credentials em (JString p)) =
               (?d', if isEmail L em
                    then \<lparr>status = 401, json = JError ''Invalid login credentials''\<rparr>
                    else \<lparr>status = 400,
                          json = JErrors [\<lparr>f_path = ''email'', f_value = Some (JString em),
                                           f_msg = ''Invalid value''\<rparr>]\<rparr>)"
  proof (cases "isEmail L em")
    case True
    then show ?thesis using lg by (simp add: post_auth_token_valid)
  next
    case False
    then show ?thesis
      by (simp add: post_auth_token_def validate_token_def check_def to_string_def
          credentials_def)
  qed
  show ?thesis using s lg st by (intro exI [of _ ?d']) simp
qed

theorem post_users_stores_plaintext_witness:
  "bcrypt_no_self_hash toy \<and> failure empty_db = None
   \<and> alice_id \<notin> row_id ` set (users empty_db)
   \<and> ''alice'' \<notin> row_username ` set (users empty_db)
   \<and> ''a@x.com'' \<notin> row_email ` set (users empty_db)
   \<and> (\<exists>d'. post_users empty_db alice_id 0 \<lparr>authorization = None, body = alice, params_id = []\<rparr>
               = (d', \<lparr>status = 201,
                      json = JUser \<lparr>id' = alice_id, username = ''alice'', email = ''a@x.com'',
                                    password = Some (JString ''secret1''),
                                    createdAt = 0, updatedAt = 0\<rparr>\<rparr>)
           \<and> users d' = users empty_db @
                [\<lparr>row_id = alice_id, row_username = ''alice'', row_email = ''a@x.com'',
                  row_password = ''secret1'', row_createdAt = 0, row_updatedAt = 0\<rparr>]
           \<and> login toy test_env d' 9 ''a@x.com'' (JString ''secret1'')
               = Inl (Error ''Invalid login credentials'')
           \<and> post_auth_token toy test_env d' 9 (credentials ''a@x.com'' (JString ''secret1''))
               = (d', \<lparr>status = 401, json = JError ''Invalid login credentials''\<rparr>))"
proof -
  have h: "failure empty_db = None" "alice_id \<notin> row_id ` set (users empty_db)"
    "''alice'' \<notin> row_username ` set (users empty_db)"
    "''a@x.com'' \<notin> row_email ` set (users empty_db)"
    by (simp_all add: empty_db_def)
  have m: "isEmail toy ''a@x.com''" by (simp add: toy_def)
  from post_users_stores_plaintext [OF toy_no_self_hash h, of 0 None "''secret1''" "[]" test_env 9]
  obtain d' where
    "post_users empty_db alice_id 0
        \<lparr>authorization = None,
         body = \<lparr>b_username = Some ''alice'', b_email = Some ''a@x.com'',
                 b_password = Some (JString ''secret1'')\<rparr>,
         params_id = []\<rparr>
       = (d', \<lparr>status = 201,
              json = JUser \<lparr>id' = alice_id, username = ''alice'', email = ''a@x.com'',
                            password = Some (JString ''secret1''),
                            createdAt = 0, updatedAt = 0\<rparr>\<rparr>)"
    "users d' = users empty_db @
                [\<lparr>row_id = alice_id, row_username = ''alice'', row_email = ''a@x.com'',
                  row_password = ''secret1'', row_createdAt = 0, row_updatedAt = 0\<rparr>]"
    "login toy test_env d' 9 ''a@x.com'' (JString ''secret1'')
               = Inl (Error ''Invalid login credentials'')"
    "post_auth_token toy test_env d' 9 (credentials ''a@x.com'' (JString ''secret1''))
         = (d', if isEmail toy ''a@x.com''
                then \<lparr>status = 401, json = JError ''Invalid login credentials''\<rparr>
                else \<lparr>status = 400,
                      json = JErrors [\<lparr>f_path = ''email'', f_value = Some (JString ''a@x.com''),
                                       f_msg = ''Invalid value''\<rparr>]\<rparr>)"
    by blast
  then have "\<exists>d'. post_users empty_db alice_id 0 \<lparr>authorization = None, body = alice, params_id = []\<rparr>
               = (d', \<lparr>status = 201,
                      json = JUser \<lparr>id' = alice_id, username = ''alice'', email = ''a@x.com'',
                                    password = Some (JString ''secret1''),
                                    createdAt = 0, updatedAt = 0\<rparr>\<rparr>)
           \<and> users d' = users empty_db @
                [\<lparr>row_id = alice_id, row_username = ''alice'', row_email = ''a@x.com'',
                  row_password = ''secret1'', row_createdAt = 0, row_updatedAt = 0\<rparr>]
           \<and> login toy test_env d' 9 ''a@x.com'' (JString ''secret1'')
               = Inl (Error ''Invalid login credentials'')
           \<and> post_auth_token toy test_env d' 9 (credentials ''a@x.com'' (JString ''secret1''))
               = (d', \<lparr>status = 401, json = JError ''Invalid login credentials''\<rparr>)"
    using m by (intro exI [of _ d']) (simp add: alice_def)
  with h toy_no_self_hash show ?thesis by blast
qed

end
